theory Spec2Isabelle
  imports Main
begin

section \<open>JavaScript strings\<close>

text \<open>
  A JavaScript string is a sequence of UTF-16 code units and \<open>length\<close> counts code
  units. The model uses \<^typ>\<open>string\<close>: one \<^typ>\<open>char\<close> stands for one code unit
  (those below 256), so \<^const>\<open>length\<close> is the source's \<open>.length\<close>.
\<close>

definition newline :: string where
  "newline = [CHR 0x0A]"

text \<open>
  \<open>String.prototype.trim\<close> strips white space and line terminators from both ends.
  Among the code units below 256 these are TAB, LF, VT, FF, CR, SPACE and NO-BREAK SPACE.
\<close>

definition isWhiteSpace :: "char \<Rightarrow> bool" where
  "isWhiteSpace c =
     (c = CHR 0x09 \<or> c = CHR 0x0A \<or> c = CHR 0x0B \<or> c = CHR 0x0C \<or> c = CHR 0x0D
      \<or> c = CHR 0x20 \<or> c = CHR 0xA0)"

definition trim :: "string \<Rightarrow> string" where
  "trim s = rev (dropWhile isWhiteSpace (rev (dropWhile isWhiteSpace s)))"

text \<open>\<open>hay.startsWith(needle)\<close> and \<open>hay.includes(needle)\<close>, both case sensitive.\<close>

fun startsWith :: "string \<Rightarrow> string \<Rightarrow> bool" where
  "startsWith hay [] = True"
| "startsWith [] (n # ns) = False"
| "startsWith (c # cs) (n # ns) = (c = n \<and> startsWith cs ns)"

fun includes_str :: "string \<Rightarrow> string \<Rightarrow> bool" where
  "includes_str [] needle = (needle = [])"
| "includes_str (c # cs) needle = (startsWith (c # cs) needle \<or> includes_str cs needle)"

text \<open>\<open>s.replace(/c/g, r)\<close> for a single character \<open>c\<close>.\<close>

definition replaceAll :: "char \<Rightarrow> string \<Rightarrow> string \<Rightarrow> string" where
  "replaceAll c r s = concat (map (\<lambda>x. if x = c then r else [x]) s)"

text \<open>\<open>s.substring(0, n)\<close>.\<close>

definition substring0 :: "nat \<Rightarrow> string \<Rightarrow> string" where
  "substring0 n s = take n s"

text \<open>\<open>xs.slice(-n)\<close>: the last \<open>n\<close> elements, all of them when there are fewer.\<close>

definition sliceLast :: "nat \<Rightarrow> 'a list \<Rightarrow> 'a list" where
  "sliceLast n xs = drop (length xs - n) xs"

text \<open>The decimal rendering of a non-negative integer inside a template literal.\<close>

function digits :: "nat \<Rightarrow> string" where
  "digits n =
     (if n < 10 then [char_of (48 + n)]
      else digits (n div 10) @ [char_of (48 + n mod 10)])"
  by pat_completeness auto
termination
  by (relation "measure id") auto

declare digits.simps [simp del]

section \<open>Errors\<close>

text \<open>
  Every \<open>throw\<close> of the source is a value. \<open>Error m\<close> is \<open>new Error(m)\<close>;
  \<open>PrismaError code\<close> is the request error the persistence client raises when the
  schema of \<open>migration.sql\<close> rejects a write (\<open>P2002\<close> unique index or primary key,
  \<open>P2003\<close> foreign key) or when the row of an update does not exist (\<open>P2025\<close>).
\<close>

datatype error = Error string | PrismaError string

section \<open>The LLM service\<close>

datatype sender = USER | AI

record MessageHistory =
  h_sender :: sender
  h_text :: string
  h_createdAt :: nat

record LLMResponse =
  content :: string
  provider :: string
  model :: string

text \<open>
  The fields of \<open>LLMService\<close>. \<open>geminiClient\<close> records whether the client object is
  non-null; the constructor sets it exactly when the provider is \<open>gemini\<close>.
\<close>

record LLMService =
  svc_provider :: string
  geminiClient :: bool
  geminiApiKey :: string
  geminiModel :: string

text \<open>
  The constructor reads three environment variables (\<open>None\<close> when unset; an empty
  value is falsy as well, so \<open>||\<close> takes the default).
\<close>

definition orDefault :: "string option \<Rightarrow> string \<Rightarrow> string" where
  "orDefault v d = (case v of None \<Rightarrow> d | Some s \<Rightarrow> if s = [] then d else s)"

definition newLLMService ::
  "string option \<Rightarrow> string option \<Rightarrow> string option \<Rightarrow> error + LLMService" where
  "newLLMService LLM_PROVIDER GEMINI_API_KEY GEMINI_MODEL =
     (let p = orDefault LLM_PROVIDER ''gemini'';
          k = orDefault GEMINI_API_KEY [];
          m = orDefault GEMINI_MODEL ''gemini-2.0-flash-exp''
      in if p = ''gemini'' \<and> k = []
         then Inl (Error ''GEMINI_API_KEY is required in environment variables'')
         else Inr \<lparr> svc_provider = p, geminiClient = (p = ''gemini''),
                    geminiApiKey = k, geminiModel = m \<rparr>)"

definition getStoreKnowledge :: string where
  \<open>getStoreKnowledge = concat
    [''You are a helpful support agent for "SpurStore", a small e-commerce store.'', newline,
     newline,
     ''STORE KNOWLEDGE BASE:'', newline,
     newline,
     ''1. SHIPPING POLICY:'', newline,
     ''   - Free shipping on orders over $50'', newline,
     ''   - Standard shipping: 3-5 business days ($4.99)'', newline,
     ''   - Express shipping: 1-2 business days ($9.99)'', newline,
     ''   - We ship to USA, Canada, UK, Australia, and EU countries'', newline,
     newline,
     ''2. RETURN & REFUND POLICY:'', newline,
     ''   - 30-day return policy'', newline,
     ''   - Items must be in original condition'', newline,
     ''   - Refunds processed within 5-7 business days'', newline,
     ''   - Free returns for defective items'', newline,
     newline,
     ''3. SUPPORT HOURS:'', newline,
     ''   - Monday-Friday: 9 AM - 6 PM EST'', newline,
     ''   - Saturday: 10 AM - 4 PM EST'', newline,
     ''   - Sunday: Closed'', newline,
     ''   - Email: support@spurstore.com'', newline,
     newline,
     ''4. PRODUCTS:'', newline,
     ''   - Smartphones, laptops, headphones, smartwatches'', newline,
     ''   - 1-year manufacturer warranty'', newline,
     ''   - Price match guarantee for 7 days'', newline,
     newline,
     ''5. PAYMENT OPTIONS:'', newline,
     ''   - Credit/Debit Cards'', newline,
     ''   - PayPal, Apple Pay, Google Pay'', newline,
     newline,
     ''INSTRUCTIONS:'', newline,
     ''- Identify as "SpurStore Support Agent"'', newline,
     ''- Be concise and helpful (2-3 sentences usually)'', newline,
     ''- If unsure: "I'' @ [CHR 0x27] @ ''ll connect you with a human agent during business hours"'', newline,
     ''- Never make promises beyond stated policies'']\<close>

text \<open>The label of one transcript entry and its line, as the \<open>forEach\<close> body appends it.\<close>

definition role :: "sender \<Rightarrow> string" where
  "role s = (if s = USER then ''Customer'' else ''Support Agent'')"

definition historyLine :: "MessageHistory \<Rightarrow> string" where
  "historyLine msg = role (h_sender msg) @ '': '' @ h_text msg @ newline"

definition conversationContext :: "MessageHistory list \<Rightarrow> string" where
  "conversationContext history =
     (if length history > 0
      then foldl (\<lambda>acc msg. acc @ historyLine msg)
             (newline @ newline @ ''CONVERSATION HISTORY:'' @ newline)
             (sliceLast 5 history)
      else [])"

definition buildPrompt :: "MessageHistory list \<Rightarrow> string \<Rightarrow> string" where
  \<open>buildPrompt history userMessage =
     getStoreKnowledge @ conversationContext history @ newline @
     newline @
     ''CURRENT CUSTOMER QUESTION: "'' @ userMessage @ ''"'' @ newline @
     newline @
     ''Provide a helpful response based ONLY on the store knowledge above.''\<close>

text \<open>
  What the provider's SDK does with a prompt: it throws an error with a message, or it
  answers with a response whose \<open>text\<close> may be undefined (\<open>None\<close>) or empty.
\<close>

datatype gemini_outcome = Throws string | Response "string option"

definition generateWithGemini ::
  "LLMService \<Rightarrow> (string \<Rightarrow> gemini_outcome) \<Rightarrow> string \<Rightarrow> error + LLMResponse" where
  "generateWithGemini svc generateContent prompt =
     (if \<not> geminiClient svc then Inl (Error ''Gemini client not initialized'')
      else case generateContent prompt of
             Throws m \<Rightarrow> Inl (Error m)
           | Response None \<Rightarrow> Inl (Error ''Empty response from Gemini'')
           | Response (Some t) \<Rightarrow>
               if t = [] then Inl (Error ''Empty response from Gemini'')
               else Inr \<lparr> content = t, provider = ''gemini'', model = geminiModel svc \<rparr>)"

text \<open>The truncation of the user's text before it enters the prompt.\<close>

definition trimmedMessage :: "string \<Rightarrow> string" where
  "trimmedMessage userMessage =
     (if length userMessage > 2000 then substring0 2000 userMessage @ ''...''
      else userMessage)"

text \<open>The \<open>try\<close> block of \<open>generateReply\<close>.\<close>

definition generateReplyBody ::
  "LLMService \<Rightarrow> (string \<Rightarrow> gemini_outcome) \<Rightarrow> string \<Rightarrow> MessageHistory list
   \<Rightarrow> error + LLMResponse" where
  "generateReplyBody svc generateContent userMessage history =
     (if userMessage = [] \<or> length (trim userMessage) = 0
      then Inl (Error ''Message cannot be empty'')
      else let prompt = buildPrompt history (trimmedMessage userMessage)
           in if svc_provider svc = ''gemini''
              then generateWithGemini svc generateContent prompt
              else Inl (Error (''Unsupported provider: '' @ svc_provider svc)))"

text \<open>The \<open>catch\<close> block of \<open>generateReply\<close>: the message of the error it rethrows.\<close>

definition authMessage :: string where
  "authMessage = ''AI service is currently unavailable. Please try again later.''"

definition rateMessage :: string where
  "rateMessage = ''We'' @ [CHR 0x27] @ ''re experiencing high demand. Please wait a moment.''"

definition otherMessage :: string where
  "otherMessage = ''Unable to generate response. Please try again.''"

definition classify :: "string \<Rightarrow> string" where
  "classify m =
     (if includes_str m ''API key'' \<or> includes_str m ''authentication'' then authMessage
      else if includes_str m ''rate limit'' \<or> includes_str m ''quota'' then rateMessage
      else otherMessage)"

text \<open>
  Every error raised inside the \<open>try\<close> block is an \<open>Error\<close> with a message. A
  \<open>PrismaError\<close> cannot arise there; its branch stands for an error without one of
  the four keywords in its message.
\<close>

definition generateReply ::
  "LLMService \<Rightarrow> (string \<Rightarrow> gemini_outcome) \<Rightarrow> string \<Rightarrow> MessageHistory list
   \<Rightarrow> error + LLMResponse" where
  "generateReply svc generateContent userMessage history =
     (case generateReplyBody svc generateContent userMessage history of
        Inr r \<Rightarrow> Inr r
      | Inl (Error m) \<Rightarrow> Inl (Error (classify m))
      | Inl (PrismaError c) \<Rightarrow> Inl (Error otherMessage))"

section \<open>The persistence store\<close>

text \<open>
  The two tables of \<open>migration.sql\<close>, each as the list of its rows in insertion
  order. Timestamps are milliseconds. The \<open>metadata\<close> column holds the JSON text of an
  object with the two fields below (\<open>llmProvider\<close> is left out of the text when the
  environment variable is unset).
\<close>

record Metadata =
  startedAt :: nat
  llmProvider :: "string option"

record Conversation =
  c_id :: string
  c_sessionId :: string
  c_createdAt :: nat
  c_updatedAt :: nat
  c_metadata :: Metadata

record Message =
  m_id :: string
  m_conversationId :: string
  m_sender :: sender
  m_text :: string
  m_createdAt :: nat

record store =
  conversations :: "Conversation list"
  messages :: "Message list"

text \<open>\<open>prisma.conversation.findUnique({ where: { sessionId } })\<close>.\<close>

definition conversation_findUnique :: "string \<Rightarrow> store \<Rightarrow> Conversation option" where
  "conversation_findUnique sid s = find (\<lambda>c. c_sessionId c = sid) (conversations s)"

text \<open>
  \<open>prisma.conversation.create\<close>: the insert is rejected when the primary key or the
  unique index \<open>conversations_sessionId_key\<close> would be violated.
\<close>

definition conversation_create :: "Conversation \<Rightarrow> store \<Rightarrow> (error + Conversation) \<times> store" where
  "conversation_create row s =
     (if c_id row \<in> set (map c_id (conversations s))
         \<or> c_sessionId row \<in> set (map c_sessionId (conversations s))
      then (Inl (PrismaError ''P2002''), s)
      else (Inr row, s\<lparr>conversations := conversations s @ [row]\<rparr>))"

text \<open>
  \<open>prisma.message.create\<close>: rejected on a duplicate primary key and when
  \<open>messages_conversationId_fkey\<close> finds no conversation.
\<close>

definition message_create :: "Message \<Rightarrow> store \<Rightarrow> (error + Message) \<times> store" where
  "message_create row s =
     (if m_id row \<in> set (map m_id (messages s)) then (Inl (PrismaError ''P2002''), s)
      else if m_conversationId row \<notin> set (map c_id (conversations s))
      then (Inl (PrismaError ''P2003''), s)
      else (Inr row, s\<lparr>messages := messages s @ [row]\<rparr>))"

text \<open>
  \<open>prisma.message.findMany({ where: { conversationId }, orderBy: { createdAt: 'asc' },
  take: 10 })\<close>. Rows with the same \<open>createdAt\<close> keep their insertion order.
\<close>

definition message_findMany :: "string \<Rightarrow> store \<Rightarrow> Message list" where
  "message_findMany cid s =
     take 10 (sort_key m_createdAt (filter (\<lambda>m. m_conversationId m = cid) (messages s)))"

text \<open>
  \<open>prisma.conversation.update({ where: { id }, data: { updatedAt } })\<close>: fails when no
  row has the id.
\<close>

definition conversation_update :: "string \<Rightarrow> nat \<Rightarrow> store \<Rightarrow> (error + unit) \<times> store" where
  "conversation_update cid now s =
     (if cid \<notin> set (map c_id (conversations s)) then (Inl (PrismaError ''P2025''), s)
      else (Inr (),
            s\<lparr>conversations :=
                 map (\<lambda>c. if c_id c = cid then c\<lparr>c_updatedAt := now\<rparr> else c)
                   (conversations s)\<rparr>))"

section \<open>The chat service\<close>

record ChatRequest =
  req_message :: string
  req_sessionId :: "string option"

record ChatResponse =
  reply :: string
  sessionId :: string
  messageId :: string
  conversationId :: string

text \<open>
  What one call of \<open>processMessage\<close> reads from outside the program, in the order it
  reads it: the clock and the random number of the session id, the clock of the metadata,
  the environment variable \<open>LLM_PROVIDER\<close>, the id and the timestamp the store gives a
  new conversation, the id and timestamp of the user message, the provider's behaviour,
  the id and timestamp of the AI message, and the clock of the final update.
  \<open>mathRandom\<close> is \<open>Math.random().toString(36).substr(2, 9)\<close>.
\<close>

record env =
  dateNow :: nat
  mathRandom :: string
  metadataNow :: nat
  LLM_PROVIDER :: "string option"
  newConversationId :: string
  conversationNow :: nat
  userMessageId :: string
  userMessageNow :: nat
  generateContent :: "string \<Rightarrow> gemini_outcome"
  aiMessageId :: string
  aiMessageNow :: nat
  updateNow :: nat

definition validateMessage :: "string \<Rightarrow> error + unit" where
  "validateMessage message =
     (if message = [] \<or> length (trim message) = 0
      then Inl (Error ''Message cannot be empty'')
      else if length message > 5000
      then Inl (Error ''Message is too long. Please limit to 5000 characters.'')
      else Inr ())"

text \<open>The template literal \<open>session_${Date.now()}_${...}\<close>.\<close>

definition mintSessionId :: "env \<Rightarrow> string" where
  "mintSessionId e = ''session_'' @ digits (dateNow e) @ ''_'' @ mathRandom e"

text \<open>\<open>sessionId || `session_...`\<close>: an absent or empty \<open>sessionId\<close> is falsy.\<close>

definition newSessionId :: "string option \<Rightarrow> env \<Rightarrow> string" where
  "newSessionId sid e =
     (case sid of None \<Rightarrow> mintSessionId e
      | Some x \<Rightarrow> if x = [] then mintSessionId e else x)"

text \<open>The second half of \<open>getOrCreateConversation\<close>, after the lookup.\<close>

definition createConversation ::
  "string option \<Rightarrow> env \<Rightarrow> store \<Rightarrow> (error + Conversation) \<times> store" where
  "createConversation sid e s =
     conversation_create
       \<lparr> c_id = newConversationId e,
         c_sessionId = newSessionId sid e,
         c_createdAt = conversationNow e,
         c_updatedAt = conversationNow e,
         c_metadata = \<lparr> startedAt = metadataNow e, llmProvider = LLM_PROVIDER e \<rparr> \<rparr> s"

definition getOrCreateConversation ::
  "string option \<Rightarrow> env \<Rightarrow> store \<Rightarrow> (error + Conversation) \<times> store" where
  "getOrCreateConversation sid e s =
     (case sid of
        None \<Rightarrow> createConversation sid e s
      | Some x \<Rightarrow>
          if x = [] then createConversation sid e s
          else (case conversation_findUnique x s of
                  Some conversation \<Rightarrow> (Inr conversation, s)
                | None \<Rightarrow> createConversation sid e s))"

definition getConversationHistory :: "string \<Rightarrow> store \<Rightarrow> MessageHistory list" where
  "getConversationHistory cid s =
     map (\<lambda>msg. \<lparr> h_sender = m_sender msg, h_text = m_text msg,
                  h_createdAt = m_createdAt msg \<rparr>)
       (message_findMany cid s)"

definition fallbackContent :: string where
  "fallbackContent =
     ''I apologize, but I'' @ [CHR 0x27] @ ''m having trouble accessing our knowledge base. '' @
     ''Please try again in a moment, or contact support@spurstore.com for immediate assistance.''"

definition fallbackResponse :: LLMResponse where
  "fallbackResponse = \<lparr> content = fallbackContent, provider = ''fallback'', model = ''none'' \<rparr>"

text \<open>The inner \<open>try\<close>/\<open>catch\<close> around the LLM call.\<close>

definition replyOrFallback ::
  "LLMService \<Rightarrow> env \<Rightarrow> string \<Rightarrow> MessageHistory list \<Rightarrow> LLMResponse" where
  "replyOrFallback svc e message history =
     (case generateReply svc (generateContent e) message history of
        Inr r \<Rightarrow> r
      | Inl err \<Rightarrow> fallbackResponse)"

text \<open>
  \<open>processMessage\<close> returns its result (or the error it rethrows) together with the
  store as the call leaves it: there is no transaction, so a failure half way keeps the
  writes made before it.
\<close>

definition processMessage ::
  "LLMService \<Rightarrow> ChatRequest \<Rightarrow> env \<Rightarrow> store \<Rightarrow> (error + ChatResponse) \<times> store" where
  "processMessage svc request e s =
     (case validateMessage (req_message request) of
        Inl err \<Rightarrow> (Inl err, s)
      | Inr u \<Rightarrow>
     (case getOrCreateConversation (req_sessionId request) e s of
        (Inl err, s1) \<Rightarrow> (Inl err, s1)
      | (Inr conversation, s1) \<Rightarrow>
     (case message_create
             \<lparr> m_id = userMessageId e, m_conversationId = c_id conversation,
               m_sender = USER, m_text = req_message request,
               m_createdAt = userMessageNow e \<rparr> s1 of
        (Inl err, s2) \<Rightarrow> (Inl err, s2)
      | (Inr userMessage, s2) \<Rightarrow>
     (let history = getConversationHistory (c_id conversation) s2;
          llmResponse = replyOrFallback svc e (req_message request) history
      in
     (case message_create
             \<lparr> m_id = aiMessageId e, m_conversationId = c_id conversation,
               m_sender = AI, m_text = content llmResponse,
               m_createdAt = aiMessageNow e \<rparr> s2 of
        (Inl err, s3) \<Rightarrow> (Inl err, s3)
      | (Inr aiMessage, s3) \<Rightarrow>
     (case conversation_update (c_id conversation) (updateNow e) s3 of
        (Inl err, s4) \<Rightarrow> (Inl err, s4)
      | (Inr u', s4) \<Rightarrow>
          (Inr \<lparr> reply = content llmResponse,
                 sessionId = c_sessionId conversation,
                 messageId = m_id aiMessage,
                 conversationId = c_id conversation \<rparr>, s4)))))))"

text \<open>
  \<open>getConversation\<close>: the conversation of a session with all its messages in
  ascending \<open>createdAt\<close> order (the metadata text is parsed for the caller; the store
  is only read).
\<close>

definition getConversation :: "string \<Rightarrow> store \<Rightarrow> (Conversation \<times> Message list) option" where
  "getConversation sid s =
     (case conversation_findUnique sid s of
        None \<Rightarrow> None
      | Some c \<Rightarrow>
          Some (c, sort_key m_createdAt
                     (filter (\<lambda>m. m_conversationId m = c_id c) (messages s))))"

text \<open>
  The two backends as a health check finds them: what \<open>SELECT 1\<close> does on the store,
  and how the LLM provider would answer a prompt.
\<close>

record backends =
  selectOne :: "error + unit"
  llmBackend :: "string \<Rightarrow> gemini_outcome"

record Health =
  database :: string
  llm :: string
  health_error :: "string option"
  timestamp :: nat

text \<open>
  The message of an error. For a request error of the persistence client it is the
  client's text for the code.
\<close>

definition errorMessage :: "error \<Rightarrow> string" where
  "errorMessage err =
     (case err of
        Error m \<Rightarrow> m
      | PrismaError c \<Rightarrow>
          if c = ''P2002'' then ''Unique constraint failed''
          else if c = ''P2003'' then ''Foreign key constraint failed''
          else ''Record to update not found.'')"

definition getHealth :: "backends \<Rightarrow> nat \<Rightarrow> Health" where
  "getHealth b now =
     (case selectOne b of
        Inr u \<Rightarrow>
          \<lparr> database = ''healthy'', llm = ''healthy'', health_error = None, timestamp = now \<rparr>
      | Inl err \<Rightarrow>
          \<lparr> database = ''unhealthy'', llm = ''unknown'',
            health_error = Some (errorMessage err), timestamp = now \<rparr>)"

section \<open>The HTTP layer\<close>

text \<open>
  A JSON response: its status code and its body. \<open>Plain\<close> is the body
  \<open>{error, code}\<close> of the validation middleware, \<open>Failure\<close> is
  \<open>{success: false, error, code}\<close>, \<open>Success\<close> is \<open>{success: true, data}\<close>.
\<close>

datatype http_body = Plain string string | Failure string string | Success ChatResponse

record HttpResponse =
  statusCode :: nat
  body :: http_body

record HealthResponse =
  health_statusCode :: nat
  health_status :: string
  health :: Health

definition healthCheck :: "backends \<Rightarrow> nat \<Rightarrow> HealthResponse" where
  "healthCheck b now =
     (let h = getHealth b now;
          isHealthy = (database h = ''healthy'' \<and> llm h = ''healthy'')
      in \<lparr> health_statusCode = (if isHealthy then 200 else 503),
           health_status = (if isHealthy then ''healthy'' else ''unhealthy''),
           health = h \<rparr>)"

text \<open>The field \<open>message\<close> of a request body: missing, not a string, or a string.\<close>

datatype body_field = Undefined | NotString | Str string

text \<open>
  The validation middleware: \<open>Inl\<close> is the response it sends itself, \<open>Inr\<close> the new
  \<open>req.body.message\<close> it hands to the next handler.
\<close>

definition sanitize :: "string \<Rightarrow> string" where
  "sanitize t = substring0 5000 (replaceAll CHR ''>'' ''&gt;'' (replaceAll CHR ''<'' ''&lt;'' t))"

definition validateMessage_mw :: "body_field \<Rightarrow> HttpResponse + string" where
  "validateMessage_mw message =
     (case message of
        Undefined \<Rightarrow>
          Inl \<lparr> statusCode = 400,
                body = Plain ''Message is required and must be a string'' ''VALIDATION_ERROR'' \<rparr>
      | NotString \<Rightarrow>
          Inl \<lparr> statusCode = 400,
                body = Plain ''Message is required and must be a string'' ''VALIDATION_ERROR'' \<rparr>
      | Str m \<Rightarrow>
          if m = []
          then Inl \<lparr> statusCode = 400,
                     body = Plain ''Message is required and must be a string''
                              ''VALIDATION_ERROR'' \<rparr>
          else if length (trim m) = 0
          then Inl \<lparr> statusCode = 400,
                     body = Plain ''Message cannot be empty or whitespace only''
                              ''EMPTY_MESSAGE'' \<rparr>
          else if length (trim m) > 5000
          then Inl \<lparr> statusCode = 400,
                     body = Plain ''Message is too long. Maximum 5000 characters allowed.''
                              ''MESSAGE_TOO_LONG'' \<rparr>
          else Inr (sanitize (trim m)))"

text \<open>The other copy of the middleware in the repository: the same without the cap.\<close>

definition sanitize_uncapped :: "string \<Rightarrow> string" where
  "sanitize_uncapped t = replaceAll CHR ''>'' ''&gt;'' (replaceAll CHR ''<'' ''&lt;'' t)"

definition validateMessage_mw_uncapped :: "body_field \<Rightarrow> HttpResponse + string" where
  "validateMessage_mw_uncapped message =
     (case message of
        Undefined \<Rightarrow>
          Inl \<lparr> statusCode = 400,
                body = Plain ''Message is required and must be a string'' ''VALIDATION_ERROR'' \<rparr>
      | NotString \<Rightarrow>
          Inl \<lparr> statusCode = 400,
                body = Plain ''Message is required and must be a string'' ''VALIDATION_ERROR'' \<rparr>
      | Str m \<Rightarrow>
          if m = []
          then Inl \<lparr> statusCode = 400,
                     body = Plain ''Message is required and must be a string''
                              ''VALIDATION_ERROR'' \<rparr>
          else if length (trim m) = 0
          then Inl \<lparr> statusCode = 400,
                     body = Plain ''Message cannot be empty or whitespace only''
                              ''EMPTY_MESSAGE'' \<rparr>
          else if length (trim m) > 5000
          then Inl \<lparr> statusCode = 400,
                     body = Plain ''Message is too long. Maximum 5000 characters allowed.''
                              ''MESSAGE_TOO_LONG'' \<rparr>
          else Inr (sanitize_uncapped (trim m)))"

definition getErrorCode :: "error \<Rightarrow> string" where
  "getErrorCode err =
     (let m = errorMessage err in
      if includes_str m ''cannot be empty'' then ''EMPTY_MESSAGE''
      else if includes_str m ''too long'' then ''MESSAGE_TOO_LONG''
      else if includes_str m ''invalid content'' then ''INVALID_CONTENT''
      else if includes_str m ''unavailable'' then ''SERVICE_UNAVAILABLE''
      else if includes_str m ''Rate limit'' then ''RATE_LIMITED''
      else if includes_str m ''Authentication'' then ''AUTH_ERROR''
      else ''INTERNAL_ERROR'')"

text \<open>
  \<open>ChatController.sendMessage\<close>. The \<open>sessionId\<close> of the body is a string when it is
  present.
\<close>

definition sendMessage ::
  "LLMService \<Rightarrow> body_field \<Rightarrow> string option \<Rightarrow> env \<Rightarrow> store \<Rightarrow> HttpResponse \<times> store" where
  "sendMessage svc message sid e s =
     (case message of
        Undefined \<Rightarrow>
          (\<lparr> statusCode = 400,
             body = Failure ''Message is required and must be a string'' ''VALIDATION_ERROR'' \<rparr>, s)
      | NotString \<Rightarrow>
          (\<lparr> statusCode = 400,
             body = Failure ''Message is required and must be a string'' ''VALIDATION_ERROR'' \<rparr>, s)
      | Str m \<Rightarrow>
          if m = []
          then (\<lparr> statusCode = 400,
                  body = Failure ''Message is required and must be a string''
                           ''VALIDATION_ERROR'' \<rparr>, s)
          else if length (trim m) = 0
          then (\<lparr> statusCode = 400,
                  body = Failure ''Message cannot be empty'' ''EMPTY_MESSAGE'' \<rparr>, s)
          else (case processMessage svc \<lparr> req_message = trim m, req_sessionId = sid \<rparr> e s of
                  (Inr result, s') \<Rightarrow> (\<lparr> statusCode = 200, body = Success result \<rparr>, s')
                | (Inl err, s') \<Rightarrow>
                    (\<lparr> statusCode =
                         (if includes_str (errorMessage err) ''cannot be empty''
                             \<or> includes_str (errorMessage err) ''too long''
                             \<or> includes_str (errorMessage err) ''invalid content''
                          then 400 else 500),
                       body = Failure (if errorMessage err = [] then ''Internal server error''
                                       else errorMessage err)
                                (getErrorCode err) \<rparr>, s')))"

text \<open>
  The routes \<open>POST /chat/message\<close> and \<open>POST /message\<close>: the validation middleware,
  then the controller on the body the middleware rewrote.
\<close>

definition postMessage ::
  "LLMService \<Rightarrow> body_field \<Rightarrow> string option \<Rightarrow> env \<Rightarrow> store \<Rightarrow> HttpResponse \<times> store" where
  "postMessage svc message sid e s =
     (case validateMessage_mw message of
        Inl response \<Rightarrow> (response, s)
      | Inr message' \<Rightarrow> sendMessage svc (Str message') sid e s)"

definition postMessage_uncapped ::
  "LLMService \<Rightarrow> body_field \<Rightarrow> string option \<Rightarrow> env \<Rightarrow> store \<Rightarrow> HttpResponse \<times> store" where
  "postMessage_uncapped svc message sid e s =
     (case validateMessage_mw_uncapped message of
        Inl response \<Rightarrow> (response, s)
      | Inr message' \<Rightarrow> sendMessage svc (Str message') sid e s)"

section \<open>Operations and invariants\<close>

text \<open>
  The operations of the service. Each returns its result and the store it leaves behind;
  a sequence of operations is run from left to right.
\<close>

datatype operation =
    ProcessMessage ChatRequest env
  | GetConversation string
  | GetHealth backends nat

datatype outcome =
    Processed "error + ChatResponse"
  | Found "(Conversation \<times> Message list) option"
  | Reported Health

fun perform :: "LLMService \<Rightarrow> operation \<Rightarrow> store \<Rightarrow> outcome \<times> store" where
  "perform svc (ProcessMessage request e) s =
     (case processMessage svc request e s of (r, s') \<Rightarrow> (Processed r, s'))"
| "perform svc (GetConversation sid) s = (Found (getConversation sid s), s)"
| "perform svc (GetHealth b now) s = (Reported (getHealth b now), s)"

fun run :: "LLMService \<Rightarrow> operation list \<Rightarrow> store \<Rightarrow> store" where
  "run svc [] s = s"
| "run svc (op # ops) s = run svc ops (snd (perform svc op s))"

text \<open>A session id identifies at most one conversation.\<close>

definition session_unique :: "store \<Rightarrow> bool" where
  "session_unique s = distinct (map c_sessionId (conversations s))"

text \<open>The primary key of \<open>conversations\<close>.\<close>

definition id_unique :: "store \<Rightarrow> bool" where
  "id_unique s = distinct (map c_id (conversations s))"

text \<open>The id and the session id of every conversation, in row order.\<close>

definition identities :: "store \<Rightarrow> (string \<times> string) list" where
  "identities s = map (\<lambda>c. (c_id c, c_sessionId c)) (conversations s)"

section \<open>Rows and updates written by \<open>processMessage\<close>\<close>

text \<open>
  Names for the object literals of \<open>processMessage\<close> and \<open>getOrCreateConversation\<close>:
  the update of \<open>updatedAt\<close> on the rows with a given id, the row of the user message,
  the row of the AI message, and the row of a new conversation.
\<close>

abbreviation touch :: "string \<Rightarrow> nat \<Rightarrow> Conversation \<Rightarrow> Conversation" where
  "touch cid now \<equiv> (\<lambda>c. if c_id c = cid then c\<lparr>c_updatedAt := now\<rparr> else c)"

abbreviation userRow :: "ChatRequest \<Rightarrow> env \<Rightarrow> string \<Rightarrow> Message" where
  "userRow request e cid \<equiv>
     \<lparr> m_id = userMessageId e, m_conversationId = cid, m_sender = USER,
       m_text = req_message request, m_createdAt = userMessageNow e \<rparr>"

abbreviation aiRow :: "env \<Rightarrow> string \<Rightarrow> string \<Rightarrow> Message" where
  "aiRow e cid txt \<equiv>
     \<lparr> m_id = aiMessageId e, m_conversationId = cid, m_sender = AI,
       m_text = txt, m_createdAt = aiMessageNow e \<rparr>"

abbreviation newRow :: "string option \<Rightarrow> env \<Rightarrow> Conversation" where
  "newRow sid e \<equiv>
     \<lparr> c_id = newConversationId e, c_sessionId = newSessionId sid e,
       c_createdAt = conversationNow e, c_updatedAt = conversationNow e,
       c_metadata = \<lparr> startedAt = metadataNow e, llmProvider = LLM_PROVIDER e \<rparr> \<rparr>"

section \<open>The prompt as the specification describes it\<close>

text \<open>
  The specification's prompt: the knowledge block, then the transcript of the last five
  entries with each entry labelled by its sender, then the instruction line with the
  question cut to 2000 characters and marked with an ellipsis when it was longer.
\<close>

definition spec_label :: "sender \<Rightarrow> string" where
  "spec_label s = (case s of USER \<Rightarrow> ''Customer'' | AI \<Rightarrow> ''Support Agent'')"

definition spec_lastN :: "nat \<Rightarrow> 'a list \<Rightarrow> 'a list" where
  "spec_lastN n xs = rev (take n (rev xs))"

definition spec_transcript :: "MessageHistory list \<Rightarrow> string" where
  "spec_transcript entries =
     (if entries = [] then []
      else newline @ newline @ ''CONVERSATION HISTORY:'' @ newline @
           concat (map (\<lambda>m. spec_label (h_sender m) @ '': '' @ h_text m @ newline) entries))"

definition spec_truncate :: "string \<Rightarrow> string" where
  "spec_truncate t = (if length t \<le> 2000 then t else take 2000 t @ ''...'')"

definition spec_instruction :: "string \<Rightarrow> string" where
  \<open>spec_instruction q =
     newline @ newline @ ''CURRENT CUSTOMER QUESTION: "'' @ q @ ''"'' @ newline @ newline @
     ''Provide a helpful response based ONLY on the store knowledge above.''\<close>

definition spec_prompt :: "MessageHistory list \<Rightarrow> string \<Rightarrow> string" where
  "spec_prompt history text =
     getStoreKnowledge @ spec_transcript (spec_lastN 5 history)
       @ spec_instruction (spec_truncate text)"

section \<open>Example inputs\<close>

definition svc0 :: LLMService where
  "svc0 = \<lparr> svc_provider = ''gemini'', geminiClient = True, geminiApiKey = ''key'',
            geminiModel = ''gemini-2.0-flash-exp'' \<rparr>"

text \<open>An environment whose provider answers \<open>ok\<close>, and one whose provider is down.\<close>

definition env0 :: env where
  "env0 = \<lparr> dateNow = 0, mathRandom = ''abc'', metadataNow = 0, LLM_PROVIDER = None,
            newConversationId = ''c1'', conversationNow = 0,
            userMessageId = ''m1'', userMessageNow = 1,
            generateContent = (\<lambda>p. Response (Some ''ok'')),
            aiMessageId = ''m2'', aiMessageNow = 2, updateNow = 3 \<rparr>"

definition envDown :: env where
  "envDown = env0\<lparr> generateContent := (\<lambda>p. Throws ''fetch failed'') \<rparr>"

definition store0 :: store where
  "store0 = \<lparr> conversations = [], messages = [] \<rparr>"

definition req0 :: ChatRequest where
  "req0 = \<lparr> req_message = ''hi'', req_sessionId = None \<rparr>"

definition reqAbc :: ChatRequest where
  "reqAbc = \<lparr> req_message = ''hi'', req_sessionId = Some ''abc'' \<rparr>"

text \<open>A second call on the store the first call left.\<close>

definition env1 :: env where
  "env1 = env0\<lparr> userMessageId := ''m3'', userMessageNow := 4,
                 aiMessageId := ''m4'', aiMessageNow := 5, updateNow := 6 \<rparr>"

definition respAbc :: ChatResponse where
  "respAbc = \<lparr> reply = ''ok'', sessionId = ''abc'', messageId = ''m2'', conversationId = ''c1'' \<rparr>"

definition storeAbc :: store where
  "storeAbc =
     \<lparr> conversations = [\<lparr> c_id = ''c1'', c_sessionId = ''abc'', c_createdAt = 0,
                          c_updatedAt = 3,
                          c_metadata = \<lparr> startedAt = 0, llmProvider = None \<rparr> \<rparr>],
       messages = [\<lparr> m_id = ''m1'', m_conversationId = ''c1'', m_sender = USER,
                     m_text = ''hi'', m_createdAt = 1 \<rparr>,
                   \<lparr> m_id = ''m2'', m_conversationId = ''c1'', m_sender = AI,
                     m_text = ''ok'', m_createdAt = 2 \<rparr>] \<rparr>"

definition providerQuota :: "string \<Rightarrow> gemini_outcome" where
  "providerQuota p = Throws ''429: quota exceeded''"

definition providerEmpty :: "string \<Rightarrow> gemini_outcome" where
  "providerEmpty p = Response (Some [])"

text \<open>A conversation that holds eleven messages, created at the times 1 to 11.\<close>

definition store11 :: store where
  "store11 =
     \<lparr> conversations = [\<lparr> c_id = ''c1'', c_sessionId = ''abc'', c_createdAt = 0,
                          c_updatedAt = 11,
                          c_metadata = \<lparr> startedAt = 0, llmProvider = None \<rparr> \<rparr>],
       messages = map (\<lambda>t. \<lparr> m_id = digits t, m_conversationId = ''c1'',
                              m_sender = (if odd t then USER else AI),
                              m_text = digits t, m_createdAt = t \<rparr>) [1..<12] \<rparr>"

text \<open>The store answers and the LLM provider cannot be reached.\<close>

definition storeUp_llmDown :: backends where
  "storeUp_llmDown = \<lparr> selectOne = Inr (), llmBackend = (\<lambda>p. Throws ''fetch failed'') \<rparr>"

text \<open>A client text with markup, and the response and the store after it is posted.\<close>

definition rawTag :: string where
  "rawTag = ''<b>hi</b>''"

definition respTag :: ChatResponse where
  "respTag = \<lparr> reply = ''ok'', sessionId = mintSessionId env0, messageId = ''m2'',
               conversationId = ''c1'' \<rparr>"

definition storeTag :: store where
  "storeTag =
     \<lparr> conversations = [(newRow None env0)\<lparr>c_updatedAt := 3\<rparr>],
       messages = [\<lparr> m_id = ''m1'', m_conversationId = ''c1'', m_sender = USER,
                     m_text = ''&lt;b&gt;hi&lt;/b&gt;'', m_createdAt = 1 \<rparr>,
                   \<lparr> m_id = ''m2'', m_conversationId = ''c1'', m_sender = AI,
                     m_text = ''ok'', m_createdAt = 2 \<rparr>] \<rparr>"

section \<open>Facts about the store operations\<close>

lemma conversation_create_Inr:
  "conversation_create row s = (Inr c, s') \<Longrightarrow>
     c = row \<and> s' = s\<lparr>conversations := conversations s @ [row]\<rparr>
     \<and> c_id row \<notin> set (map c_id (conversations s))
     \<and> c_sessionId row \<notin> set (map c_sessionId (conversations s))"
  by (auto simp: conversation_create_def split: if_splits)

lemma conversation_create_Inl:
  "conversation_create row s = (Inl err, s') \<Longrightarrow> s' = s"
  by (auto simp: conversation_create_def split: if_splits)

lemma message_create_Inr:
  "message_create row s = (Inr m, s') \<Longrightarrow>
     m = row \<and> s' = s\<lparr>messages := messages s @ [row]\<rparr>
     \<and> m_id row \<notin> set (map m_id (messages s))
     \<and> m_conversationId row \<in> set (map c_id (conversations s))"
  by (auto simp: message_create_def split: if_splits)

lemma message_create_Inl:
  "message_create row s = (Inl err, s') \<Longrightarrow> s' = s"
  by (auto simp: message_create_def split: if_splits)

lemma conversation_update_Inr:
  "conversation_update cid now s = (Inr u, s') \<Longrightarrow>
     s' = s\<lparr>conversations := map (touch cid now) (conversations s)\<rparr>
     \<and> cid \<in> set (map c_id (conversations s))"
  by (auto simp: conversation_update_def split: if_splits)

lemma conversation_update_Inl:
  "conversation_update cid now s = (Inl err, s') \<Longrightarrow> s' = s"
  by (auto simp: conversation_update_def split: if_splits)

lemma processMessage_Inr:
  assumes "processMessage svc request e s = (Inr r, s')"
  shows "\<exists>conv s1.
      validateMessage (req_message request) = Inr ()
    \<and> getOrCreateConversation (req_sessionId request) e s = (Inr conv, s1)
    \<and> userMessageId e \<notin> set (map m_id (messages s1))
    \<and> aiMessageId e \<notin> set (map m_id (messages s1))
    \<and> aiMessageId e \<noteq> userMessageId e
    \<and> c_id conv \<in> set (map c_id (conversations s1))
    \<and> r = \<lparr> reply = content (replyOrFallback svc e (req_message request)
                    (getConversationHistory (c_id conv)
                       (s1\<lparr>messages := messages s1 @ [userRow request e (c_id conv)]\<rparr>))),
              sessionId = c_sessionId conv, messageId = aiMessageId e,
              conversationId = c_id conv \<rparr>
    \<and> s' = \<lparr> conversations = map (touch (c_id conv) (updateNow e)) (conversations s1),
             messages = messages s1 @ [userRow request e (c_id conv),
                                       aiRow e (c_id conv) (reply r)] \<rparr>"
proof -
  from assms obtain u where v: "validateMessage (req_message request) = Inr u"
    by (auto simp: processMessage_def split: sum.splits)
  from assms v obtain conv s1 where g: "getOrCreateConversation (req_sessionId request) e s = (Inr conv, s1)"
    by (auto simp: processMessage_def split: sum.splits prod.splits)
  let ?u = "userRow request e (c_id conv)"
  from assms v g obtain um s2 where m1: "message_create ?u s1 = (Inr um, s2)"
    by (auto simp: processMessage_def Let_def split: sum.splits prod.splits)
  let ?txt = "content (replyOrFallback svc e (req_message request) (getConversationHistory (c_id conv) s2))"
  let ?a = "aiRow e (c_id conv) ?txt"
  from assms v g m1 obtain am s3 where m2: "message_create ?a s2 = (Inr am, s3)"
    by (auto simp: processMessage_def Let_def split: sum.splits prod.splits)
  from assms v g m1 m2 obtain u' s4 where up: "conversation_update (c_id conv) (updateNow e) s3 = (Inr u', s4)"
    by (auto simp: processMessage_def Let_def split: sum.splits prod.splits)
  from assms v g m1 m2 up have res: "r = \<lparr> reply = ?txt, sessionId = c_sessionId conv, messageId = m_id am, conversationId = c_id conv \<rparr>" and s4: "s' = s4"
    by (auto simp: processMessage_def Let_def split: sum.splits prod.splits)
  note f1 = message_create_Inr[OF m1] and f2 = message_create_Inr[OF m2] and f3 = conversation_update_Inr[OF up]
  show ?thesis
    apply (rule exI[of _ conv], rule exI[of _ s1])
    using v g f1 f2 f3 res s4 by auto
qed


lemma find_Some_sessionId:
  "conversation_findUnique x s = Some c \<Longrightarrow> c \<in> set (conversations s) \<and> c_sessionId c = x"
  by (auto simp: conversation_findUnique_def find_Some_iff)

lemma find_None_sessionId:
  "conversation_findUnique x s = None \<longleftrightarrow> x \<notin> set (map c_sessionId (conversations s))"
  by (auto simp: conversation_findUnique_def find_None_iff)

lemma createConversation_Inr:
  assumes "createConversation sid e s = (Inr conv, s1)"
  shows "conv = newRow sid e" "s1 = s\<lparr>conversations := conversations s @ [conv]\<rparr>"
    "c_id conv \<notin> set (map c_id (conversations s))"
    "c_sessionId conv \<notin> set (map c_sessionId (conversations s))"
  using conversation_create_Inr[OF assms[unfolded createConversation_def]] by simp_all

lemma getOrCreateConversation_Inr:
  assumes "getOrCreateConversation sid e s = (Inr conv, s1)"
  shows "(\<exists>x. sid = Some x \<and> x \<noteq> [] \<and> conversation_findUnique x s = Some conv \<and> s1 = s)
       \<or> ((sid = None \<or> sid = Some [] \<or> (\<exists>x. sid = Some x \<and> conversation_findUnique x s = None))
          \<and> conv = newRow sid e \<and> s1 = s\<lparr>conversations := conversations s @ [conv]\<rparr>
          \<and> c_id conv \<notin> set (map c_id (conversations s))
          \<and> c_sessionId conv \<notin> set (map c_sessionId (conversations s)))"
  using assms
  by (auto simp: getOrCreateConversation_def split: option.splits if_splits
           dest: createConversation_Inr)

lemma newSessionId_nonempty: "newSessionId sid e \<noteq> []"
  by (auto simp: newSessionId_def mintSessionId_def split: option.splits)

lemma map_touch_fresh:
  "cid \<notin> set (map c_id cs) \<Longrightarrow> map (touch cid now) cs = cs"
  by (induction cs) auto

lemma find_touch:
  "find (\<lambda>c. c_sessionId c = x) (map (touch cid now) cs)
     = map_option (touch cid now) (find (\<lambda>c. c_sessionId c = x) cs)"
  by (induction cs) auto

lemma find_append_fresh:
  "x \<notin> set (map c_sessionId cs) \<Longrightarrow> c_sessionId c = x \<Longrightarrow>
     find (\<lambda>c. c_sessionId c = x) (cs @ [c]) = Some c"
  by (induction cs) auto

text \<open>After a successful call the returned session id finds the returned conversation.\<close>

lemma processMessage_findUnique_after:
  assumes "processMessage svc request e s = (Inr r, s')"
  shows "sessionId r \<noteq> [] \<and> (\<exists>c. conversation_findUnique (sessionId r) s' = Some c \<and> c_id c = conversationId r)"
proof -
  from processMessage_Inr[OF assms] obtain conv s1 where
    g: "getOrCreateConversation (req_sessionId request) e s = (Inr conv, s1)"
    and rr: "r = \<lparr> reply = content (replyOrFallback svc e (req_message request)
                    (getConversationHistory (c_id conv)
                       (s1\<lparr>messages := messages s1 @ [userRow request e (c_id conv)]\<rparr>))),
              sessionId = c_sessionId conv, messageId = aiMessageId e,
              conversationId = c_id conv \<rparr>"
    and ss: "s' = \<lparr> conversations = map (touch (c_id conv) (updateNow e)) (conversations s1),
             messages = messages s1 @ [userRow request e (c_id conv),
                                       aiRow e (c_id conv) (reply r)] \<rparr>"
    by blast
  have r: "sessionId r = c_sessionId conv" "conversationId r = c_id conv"
    by (subst rr, simp)+
  have s': "conversations s' = map (touch (c_id conv) (updateNow e)) (conversations s1)"
    by (subst ss) simp
  consider (found) x where "x \<noteq> []" "conversation_findUnique x s = Some conv" "s1 = s"
    | (created) "conv = newRow (req_sessionId request) e"
        "s1 = s\<lparr>conversations := conversations s @ [conv]\<rparr>"
        "c_sessionId conv \<notin> set (map c_sessionId (conversations s))"
    using getOrCreateConversation_Inr[OF g] by blast
  then have "c_sessionId conv \<noteq> [] \<and> find (\<lambda>c. c_sessionId c = c_sessionId conv) (conversations s1) = Some conv"
  proof cases
    case found
    from find_Some_sessionId[OF found(2)] have "c_sessionId conv = x" by simp
    with found show ?thesis by (simp add: conversation_findUnique_def)
  next
    case created
    from created(1) have "c_sessionId conv = newSessionId (req_sessionId request) e" by simp
    then have ne: "c_sessionId conv \<noteq> []" by (simp add: newSessionId_nonempty)
    have cs: "conversations s1 = conversations s @ [conv]" by (subst created(2)) simp
    show ?thesis
      unfolding cs using ne find_append_fresh[OF created(3) refl] by simp
  qed
  then have "sessionId r \<noteq> []"
    and "find (\<lambda>c. c_sessionId c = sessionId r) (conversations s') = Some (touch (c_id conv) (updateNow e) conv)"
    unfolding r s' find_touch by simp_all
  then show ?thesis
    unfolding conversation_findUnique_def r by simp
qed


lemma getOrCreateConversation_found:
  "x \<noteq> [] \<Longrightarrow> conversation_findUnique x s = Some c \<Longrightarrow>
     getOrCreateConversation (Some x) e s = (Inr c, s)"
  by (simp add: getOrCreateConversation_def)

lemma getOrCreateConversation_missing:
  "conversation_findUnique x s = None \<Longrightarrow>
     getOrCreateConversation (Some x) e s = createConversation (Some x) e s"
  by (simp add: getOrCreateConversation_def)

lemma getOrCreateConversation_falsy:
  "sid = None \<or> sid = Some [] \<Longrightarrow>
     getOrCreateConversation sid e s = createConversation sid e s"
  by (auto simp: getOrCreateConversation_def)

text \<open>What a successful call leaves in the table of conversations.\<close>

lemma processMessage_conversations:
  assumes ok: "processMessage svc request e s = (Inr r, s')"
      and g: "getOrCreateConversation (req_sessionId request) e s = (Inr conv, s1)"
  shows "sessionId r = c_sessionId conv" "conversationId r = c_id conv"
    "conversations s' = map (touch (c_id conv) (updateNow e)) (conversations s1)"
proof -
  from processMessage_Inr[OF ok] obtain conv' s1' where
    g': "getOrCreateConversation (req_sessionId request) e s = (Inr conv', s1')"
    and rr: "r = \<lparr> reply = content (replyOrFallback svc e (req_message request)
                    (getConversationHistory (c_id conv')
                       (s1'\<lparr>messages := messages s1' @ [userRow request e (c_id conv')]\<rparr>))),
              sessionId = c_sessionId conv', messageId = aiMessageId e,
              conversationId = c_id conv' \<rparr>"
    and ss: "s' = \<lparr> conversations = map (touch (c_id conv') (updateNow e)) (conversations s1'),
             messages = messages s1' @ [userRow request e (c_id conv'),
                                       aiRow e (c_id conv') (reply r)] \<rparr>"
    by blast
  from g g' have eq: "conv' = conv" "s1' = s1" by simp_all
  show "sessionId r = c_sessionId conv" "conversationId r = c_id conv"
    by (subst rr, simp add: eq)+
  show "conversations s' = map (touch (c_id conv) (updateNow e)) (conversations s1)"
    by (subst ss) (simp add: eq)
qed

lemma processMessage_created:
  assumes ok: "processMessage svc request e s = (Inr r, s')"
      and g: "getOrCreateConversation (req_sessionId request) e s
                = createConversation (req_sessionId request) e s"
  shows "sessionId r = newSessionId (req_sessionId request) e
       \<and> conversationId r = newConversationId e
       \<and> conversations s' =
           conversations s @ [(newRow (req_sessionId request) e)\<lparr>c_updatedAt := updateNow e\<rparr>]"
proof -
  from processMessage_Inr[OF ok] obtain conv s1 where
    g1: "getOrCreateConversation (req_sessionId request) e s = (Inr conv, s1)" by blast
  with g have c: "createConversation (req_sessionId request) e s = (Inr conv, s1)" by simp
  note f = createConversation_Inr[OF c]
  note conv = f(1) and fresh = f(3)
  have cs: "conversations s1 = conversations s @ [conv]" by (subst f(2)) simp
  note p = processMessage_conversations[OF ok g1]
  have "conversations s' = conversations s @ [conv\<lparr>c_updatedAt := updateNow e\<rparr>]"
    unfolding p(3) cs using map_touch_fresh[OF fresh] by simp
  then show ?thesis using p(1,2) conv by simp
qed

lemma getOrCreateConversation_member:
  assumes "getOrCreateConversation sid e s = (Inr conv, s1)"
  shows "c_id conv \<in> set (map c_id (conversations s1))" "messages s1 = messages s"
proof -
  consider (found) x where "conversation_findUnique x s = Some conv" "s1 = s"
    | (created) "s1 = s\<lparr>conversations := conversations s @ [conv]\<rparr>"
    using getOrCreateConversation_Inr[OF assms] by blast
  then have "c_id conv \<in> set (map c_id (conversations s1)) \<and> messages s1 = messages s"
  proof cases
    case found
    then show ?thesis using find_Some_sessionId[OF found(1)] by simp
  next
    case created
    have "conversations s1 = conversations s @ [conv]" "messages s1 = messages s"
      by (subst created, simp)+
    then show ?thesis by simp
  qed
  then show "c_id conv \<in> set (map c_id (conversations s1))" "messages s1 = messages s"
    by simp_all
qed

text \<open>A call succeeds when the text is valid, the conversation resolves and the store
  accepts the two message ids.\<close>

lemma processMessage_success:
  assumes v: "validateMessage (req_message request) = Inr ()"
      and g: "getOrCreateConversation (req_sessionId request) e s = (Inr conv, s1)"
      and fu: "userMessageId e \<notin> set (map m_id (messages s))"
      and fa: "aiMessageId e \<notin> set (map m_id (messages s))"
      and ne: "aiMessageId e \<noteq> userMessageId e"
      and t: "txt = content (replyOrFallback svc e (req_message request)
                    (getConversationHistory (c_id conv)
                       (s1\<lparr>messages := messages s @ [userRow request e (c_id conv)]\<rparr>)))"
  shows "processMessage svc request e s =
      (Inr \<lparr> reply = txt, sessionId = c_sessionId conv, messageId = aiMessageId e,
             conversationId = c_id conv \<rparr>,
       \<lparr> conversations = map (touch (c_id conv) (updateNow e)) (conversations s1),
         messages = messages s @ [userRow request e (c_id conv), aiRow e (c_id conv) txt] \<rparr>)"
proof -
  note m = getOrCreateConversation_member[OF g]
  let ?u = "userRow request e (c_id conv)"
  let ?s2 = "s1\<lparr>messages := messages s @ [?u]\<rparr>"
  have m1: "message_create ?u s1 = (Inr ?u, ?s2)"
    using m fu by (simp add: message_create_def)
  let ?a = "aiRow e (c_id conv) txt"
  let ?s3 = "s1\<lparr>messages := messages s @ [?u, ?a]\<rparr>"
  have m2: "message_create ?a ?s2 = (Inr ?a, ?s3)"
    using m fa ne by (simp add: message_create_def)
  have up: "conversation_update (c_id conv) (updateNow e) ?s3
      = (Inr (), \<lparr> conversations = map (touch (c_id conv) (updateNow e)) (conversations s1),
                   messages = messages s @ [?u, ?a] \<rparr>)"
    using m by (simp add: conversation_update_def)
  show ?thesis
    unfolding processMessage_def v g
    by (simp add: m1 t[symmetric] Let_def m2 up)
qed

lemma validateMessage_hi: "validateMessage ''hi'' = Inr ()"
  by (simp add: validateMessage_def trim_def isWhiteSpace_def)

lemma eval_reqAbc:
  "processMessage svc0 reqAbc env0 store0 =
     (Inr \<lparr> reply = ''ok'', sessionId = ''abc'', messageId = ''m2'', conversationId = ''c1'' \<rparr>,
      \<lparr> conversations = [\<lparr> c_id = ''c1'', c_sessionId = ''abc'', c_createdAt = 0,
                           c_updatedAt = 3,
                           c_metadata = \<lparr> startedAt = 0, llmProvider = None \<rparr> \<rparr>],
        messages = [\<lparr> m_id = ''m1'', m_conversationId = ''c1'', m_sender = USER,
                      m_text = ''hi'', m_createdAt = 1 \<rparr>,
                    \<lparr> m_id = ''m2'', m_conversationId = ''c1'', m_sender = AI,
                      m_text = ''ok'', m_createdAt = 2 \<rparr>] \<rparr>)"
proof -
  let ?conv = "\<lparr> c_id = ''c1'', c_sessionId = ''abc'', c_createdAt = 0, c_updatedAt = 0,
                 c_metadata = \<lparr> startedAt = 0, llmProvider = None \<rparr> \<rparr>"
  have g: "getOrCreateConversation (req_sessionId reqAbc) env0 store0
             = (Inr ?conv, \<lparr> conversations = [?conv], messages = [] \<rparr>)"
    by (simp add: getOrCreateConversation_def conversation_findUnique_def createConversation_def
          conversation_create_def newSessionId_def reqAbc_def env0_def store0_def)
  have v: "validateMessage (req_message reqAbc) = Inr ()"
    by (simp add: reqAbc_def validateMessage_hi)
  have t: "''ok'' = content (replyOrFallback svc0 env0 (req_message reqAbc) h)" for h
    by (simp add: replyOrFallback_def generateReply_def generateReplyBody_def
          generateWithGemini_def svc0_def env0_def reqAbc_def trim_def isWhiteSpace_def)
  show ?thesis
    using processMessage_success[OF v g _ _ _ t]
    by (simp add: env0_def store0_def reqAbc_def)
qed


lemma reply_ok:
  "''ok'' = content (replyOrFallback svc0 (e\<lparr>generateContent := (\<lambda>p. Response (Some ''ok''))\<rparr>) ''hi'' h)"
  by (simp add: replyOrFallback_def generateReply_def generateReplyBody_def
        generateWithGemini_def svc0_def trim_def isWhiteSpace_def)

lemma eval_reqAbc': "processMessage svc0 reqAbc env0 store0 = (Inr respAbc, storeAbc)"
  unfolding respAbc_def storeAbc_def by (rule eval_reqAbc)

lemma eval_reqAbc_again:
  "processMessage svc0 reqAbc env1 storeAbc =
     (Inr \<lparr> reply = ''ok'', sessionId = ''abc'', messageId = ''m4'', conversationId = ''c1'' \<rparr>,
      \<lparr> conversations = [\<lparr> c_id = ''c1'', c_sessionId = ''abc'', c_createdAt = 0,
                           c_updatedAt = 6,
                           c_metadata = \<lparr> startedAt = 0, llmProvider = None \<rparr> \<rparr>],
        messages = messages storeAbc @
                   [\<lparr> m_id = ''m3'', m_conversationId = ''c1'', m_sender = USER,
                      m_text = ''hi'', m_createdAt = 4 \<rparr>,
                    \<lparr> m_id = ''m4'', m_conversationId = ''c1'', m_sender = AI,
                      m_text = ''ok'', m_createdAt = 5 \<rparr>] \<rparr>)"
proof -
  let ?conv = "\<lparr> c_id = ''c1'', c_sessionId = ''abc'', c_createdAt = 0, c_updatedAt = 3,
                 c_metadata = \<lparr> startedAt = 0, llmProvider = None \<rparr> \<rparr>"
  have g: "getOrCreateConversation (req_sessionId reqAbc) env1 storeAbc = (Inr ?conv, storeAbc)"
    by (simp add: getOrCreateConversation_def conversation_findUnique_def reqAbc_def storeAbc_def)
  have v: "validateMessage (req_message reqAbc) = Inr ()"
    by (simp add: reqAbc_def validateMessage_hi)
  have t: "''ok'' = content (replyOrFallback svc0 env1 (req_message reqAbc) h)" for h
    using reply_ok[of env1 h] by (simp add: env1_def env0_def reqAbc_def)
  show ?thesis
    using processMessage_success[OF v g _ _ _ t]
    by (simp add: env1_def env0_def storeAbc_def reqAbc_def)
qed

section \<open>Facts about validation, the prompt and the error messages\<close>

text \<open>The example service is one the constructor builds, and the constructor creates
  the client exactly for the provider \<open>gemini\<close>.\<close>

lemma newLLMService_svc0: "newLLMService None (Some ''key'') None = Inr svc0"
  by (simp add: newLLMService_def orDefault_def svc0_def)

lemma newLLMService_client:
  "newLLMService p k m = Inr svc \<Longrightarrow> geminiClient svc = (svc_provider svc = ''gemini'')"
  by (auto simp: newLLMService_def Let_def split: if_splits)


lemma dropWhile_replicate: "dropWhile P (replicate n x) = (if P x then [] else replicate n x)"
  by (induction n) auto

lemma trim_replicate: "trim (replicate n x) = (if isWhiteSpace x then [] else replicate n x)"
  by (simp add: trim_def dropWhile_replicate)

lemma validateMessage_empty:
  "trim text = [] \<Longrightarrow> validateMessage text = Inl (Error ''Message cannot be empty'')"
  by (simp add: validateMessage_def)

lemma validateMessage_long:
  "trim text \<noteq> [] \<Longrightarrow> length text > 5000 \<Longrightarrow>
     validateMessage text = Inl (Error ''Message is too long. Please limit to 5000 characters.'')"
  by (auto simp add: validateMessage_def trim_def)

lemma foldl_append_concat: "foldl (\<lambda>acc x. acc @ f x) a xs = a @ concat (map f xs)"
  by (induction xs arbitrary: a) auto

lemma spec_lastN_sliceLast: "spec_lastN n xs = sliceLast n xs"
  by (simp add: spec_lastN_def sliceLast_def take_rev)

lemma sliceLast_Nil_iff: "sliceLast 5 xs = [] \<longleftrightarrow> xs = []"
  by (cases xs) (auto simp: sliceLast_def)

lemma spec_label_role: "spec_label s = role s"
  by (cases s) (simp_all add: spec_label_def role_def)

lemma conversationContext_spec: "conversationContext history = spec_transcript (spec_lastN 5 history)"
proof (cases "history = []")
  case True
  then show ?thesis
    by (simp add: conversationContext_def spec_transcript_def spec_lastN_def)
next
  case False
  then have "sliceLast 5 history \<noteq> []" by (simp add: sliceLast_Nil_iff)
  with False show ?thesis
    by (simp add: conversationContext_def spec_transcript_def spec_lastN_sliceLast
          foldl_append_concat historyLine_def spec_label_role)
qed

lemma trimmedMessage_spec: "trimmedMessage t = spec_truncate t"
  by (simp add: trimmedMessage_def spec_truncate_def substring0_def)

lemma spec_lastN_suffix:
  "(take (length xs - n) xs) @ spec_lastN n xs = xs \<and> length (spec_lastN n xs) = min n (length xs)"
  by (auto simp: spec_lastN_sliceLast sliceLast_def)

lemma message_distinct:
  "authMessage \<noteq> rateMessage" "authMessage \<noteq> otherMessage" "rateMessage \<noteq> otherMessage"
  by (simp_all add: authMessage_def rateMessage_def otherMessage_def)

lemma classify_cases:
  "classify m = authMessage \<or> classify m = rateMessage \<or> classify m = otherMessage"
  by (simp add: classify_def)

lemma generateReply_Inl:
  "generateReply svc gen text history = Inl err \<Longrightarrow>
     err = Error authMessage \<or> err = Error rateMessage \<or> err = Error otherMessage"
  using classify_cases
  by (auto simp: generateReply_def split: sum.splits error.splits)

lemma generateReplyBody_gemini:
  "svc_provider svc = ''gemini'' \<Longrightarrow> geminiClient svc \<Longrightarrow> trim text \<noteq> [] \<Longrightarrow>
   generateReplyBody svc gen text history =
     (case gen (buildPrompt history (trimmedMessage text)) of
        Throws m \<Rightarrow> Inl (Error m)
      | Response None \<Rightarrow> Inl (Error ''Empty response from Gemini'')
      | Response (Some t) \<Rightarrow>
          if t = [] then Inl (Error ''Empty response from Gemini'')
          else Inr \<lparr> content = t, provider = ''gemini'', model = geminiModel svc \<rparr>)"
  by (auto simp: generateReplyBody_def generateWithGemini_def trim_def Let_def)

lemma classify_empty_response: "classify ''Empty response from Gemini'' = otherMessage"
  by (simp add: classify_def)

section \<open>Facts about the history, the invariants and the HTTP layer\<close>

lemma getConversationHistory_bounded:
  "length (getConversationHistory cid s) \<le> 10
   \<and> sorted (map h_createdAt (getConversationHistory cid s))"
proof -
  have "map h_createdAt (getConversationHistory cid s) = map m_createdAt (message_findMany cid s)"
    by (simp add: getConversationHistory_def comp_def)
  moreover have "sorted (map m_createdAt (message_findMany cid s))"
    unfolding message_findMany_def take_map[symmetric] by (rule sorted_wrt_take) simp
  moreover have "length (getConversationHistory cid s) \<le> 10"
    by (simp add: getConversationHistory_def message_findMany_def)
  ultimately show ?thesis by simp
qed

lemma generateReply_down:
  "generateReply svc0 (generateContent envDown) ''hi'' h = Inl (Error otherMessage)"
  by (simp add: generateReply_def generateReplyBody_def generateWithGemini_def classify_def
        svc0_def envDown_def env0_def trim_def isWhiteSpace_def)

lemma message_create_conversations:
  "message_create row s = (x, s') \<Longrightarrow> conversations s' = conversations s"
  by (auto simp: message_create_def split: if_splits)

lemma conversation_update_identities:
  "conversation_update cid now s = (x, s') \<Longrightarrow> identities s' = identities s"
  by (auto simp: conversation_update_def identities_def split: if_splits)

lemma createConversation_identities:
  assumes "createConversation sid e s = (x, s')"
  shows "identities s' = identities s
       \<or> (identities s' = identities s @ [(newConversationId e, newSessionId sid e)]
          \<and> newSessionId sid e \<notin> set (map snd (identities s))
          \<and> newConversationId e \<notin> set (map fst (identities s)))"
  using assms
  by (auto simp: createConversation_def conversation_create_def identities_def comp_def
           split: if_splits)

lemma getOrCreateConversation_identities:
  assumes "getOrCreateConversation sid e s = (x, s')"
  shows "identities s' = identities s
       \<or> (identities s' = identities s @ [(newConversationId e, newSessionId sid e)]
          \<and> newSessionId sid e \<notin> set (map snd (identities s))
          \<and> newConversationId e \<notin> set (map fst (identities s)))"
proof (cases "getOrCreateConversation sid e s = createConversation sid e s")
  case True
  with assms show ?thesis using createConversation_identities[of sid e s x s'] by simp
next
  case False
  then have "s' = s" using assms
    by (auto simp: getOrCreateConversation_def split: option.splits if_splits)
  then show ?thesis by simp
qed

lemma processMessage_identities_step:
  "identities (snd (processMessage svc request e s)) = identities s
   \<or> identities (snd (processMessage svc request e s))
       = identities (snd (getOrCreateConversation (req_sessionId request) e s))"
proof (cases "validateMessage (req_message request)")
  case (Inl err)
  then show ?thesis by (simp add: processMessage_def)
next
  case (Inr u)
  obtain a s1 where g: "getOrCreateConversation (req_sessionId request) e s = (a, s1)"
    by (cases "getOrCreateConversation (req_sessionId request) e s")
  show ?thesis
  proof (cases a)
    case (Inl err)
    with Inr g show ?thesis by (simp add: processMessage_def)
  next
    case conv: (Inr conv)
    obtain b s2 where m1: "message_create (userRow request e (c_id conv)) s1 = (b, s2)"
      by (cases "message_create (userRow request e (c_id conv)) s1")
    note c2 = message_create_conversations[OF m1]
    show ?thesis
    proof (cases b)
      case (Inl err)
      with Inr g conv m1 c2 show ?thesis by (simp add: processMessage_def identities_def)
    next
      case um: (Inr um)
      let ?txt = "content (replyOrFallback svc e (req_message request)
                     (getConversationHistory (c_id conv) s2))"
      obtain c s3 where m2: "message_create (aiRow e (c_id conv) ?txt) s2 = (c, s3)"
        by (cases "message_create (aiRow e (c_id conv) ?txt) s2")
      note c3 = message_create_conversations[OF m2]
      show ?thesis
      proof (cases c)
        case (Inl err)
        with Inr g conv m1 um m2 c2 c3 show ?thesis
          by (simp add: processMessage_def identities_def Let_def)
      next
        case am: (Inr am)
        obtain d s4 where up: "conversation_update (c_id conv) (updateNow e) s3 = (d, s4)"
          by (cases "conversation_update (c_id conv) (updateNow e) s3")
        note c4 = conversation_update_identities[OF up]
        have "snd (processMessage svc request e s) = s4"
          using Inr g conv m1 um m2 am up
          by (cases d) (simp_all add: processMessage_def Let_def)
        with c4 c3 c2 g show ?thesis by (simp add: identities_def)
      qed
    qed
  qed
qed

lemma processMessage_identities:
  "identities (snd (processMessage svc request e s)) = identities s
   \<or> (identities (snd (processMessage svc request e s))
         = identities s @ [(newConversationId e, newSessionId (req_sessionId request) e)]
      \<and> newSessionId (req_sessionId request) e \<notin> set (map snd (identities s))
      \<and> newConversationId e \<notin> set (map fst (identities s)))"
  using processMessage_identities_step[of svc request e s]
    getOrCreateConversation_identities[of "req_sessionId request" e s
      "fst (getOrCreateConversation (req_sessionId request) e s)"
      "snd (getOrCreateConversation (req_sessionId request) e s)"]
  by auto

lemma perform_identities:
  "identities (snd (perform svc op s)) = identities s
   \<or> (\<exists>i x. identities (snd (perform svc op s)) = identities s @ [(i, x)]
          \<and> x \<notin> set (map snd (identities s)) \<and> i \<notin> set (map fst (identities s)))"
proof (cases op)
  case (ProcessMessage request e)
  then show ?thesis
    using processMessage_identities[of svc request e s] by (auto split: prod.splits)
qed simp_all

lemma session_unique_identities: "session_unique s = distinct (map snd (identities s))"
  by (simp add: session_unique_def identities_def comp_def)

lemma id_unique_identities: "id_unique s = distinct (map fst (identities s))"
  by (simp add: id_unique_def identities_def comp_def)

lemma id_unique_perform: "id_unique s \<Longrightarrow> id_unique (snd (perform svc op s))"
  using perform_identities[of svc op s] by (auto simp: id_unique_identities)

lemma session_unique_perform: "session_unique s \<Longrightarrow> session_unique (snd (perform svc op s))"
  using perform_identities[of svc op s] by (auto simp: session_unique_identities)

text \<open>Both invariants hold in every store the service can reach from the empty one.\<close>

lemma run_invariants:
  "session_unique s \<Longrightarrow> id_unique s \<Longrightarrow>
     session_unique (run svc ops s) \<and> id_unique (run svc ops s)"
proof (induction ops arbitrary: s)
  case Nil
  then show ?case by simp
next
  case (Cons op ops)
  show ?case
    using Cons.IH[OF session_unique_perform[OF Cons.prems(1)] id_unique_perform[OF Cons.prems(2)]]
    by simp
qed

lemma reachable_invariants:
  "session_unique (run svc ops store0) \<and> id_unique (run svc ops store0)"
  by (rule run_invariants) (simp_all add: session_unique_def id_unique_def store0_def)

lemma filter_id_unique:
  "distinct (map c_id cs) \<Longrightarrow> cid \<in> set (map c_id cs) \<Longrightarrow>
     length (filter (\<lambda>c. c_id c = cid) cs) = 1"
proof (induction cs)
  case Nil
  then show ?case by simp
next
  case (Cons c cs)
  show ?case
  proof (cases "c_id c = cid")
    case True
    with Cons.prems have "cid \<notin> c_id ` set cs" by simp
    then have "filter (\<lambda>c. c_id c = cid) cs = []"
      unfolding filter_empty_conv by blast
    with True show ?thesis by simp
  next
    case False
    with Cons show ?thesis by simp
  qed
qed

text \<open>What a successful call leaves in the table of messages.\<close>

lemma processMessage_messages:
  assumes ok: "processMessage svc request e s = (Inr r, s')"
  shows "messages s' = messages s @ [userRow request e (conversationId r),
                                     aiRow e (conversationId r) (reply r)]"
    and "messageId r = aiMessageId e"
proof -
  from processMessage_Inr[OF ok] obtain conv s1 where
    g: "getOrCreateConversation (req_sessionId request) e s = (Inr conv, s1)"
    and rr: "r = \<lparr> reply = content (replyOrFallback svc e (req_message request)
                    (getConversationHistory (c_id conv)
                       (s1\<lparr>messages := messages s1 @ [userRow request e (c_id conv)]\<rparr>))),
              sessionId = c_sessionId conv, messageId = aiMessageId e,
              conversationId = c_id conv \<rparr>"
    and ss: "s' = \<lparr> conversations = map (touch (c_id conv) (updateNow e)) (conversations s1),
             messages = messages s1 @ [userRow request e (c_id conv),
                                       aiRow e (c_id conv) (reply r)] \<rparr>"
    by blast
  have c: "conversationId r = c_id conv" and m: "messageId r = aiMessageId e"
    by (subst rr, simp)+
  have "messages s' = messages s1 @ [userRow request e (c_id conv), aiRow e (c_id conv) (reply r)]"
    by (subst ss) simp
  then show "messages s' = messages s @ [userRow request e (conversationId r),
                                     aiRow e (conversationId r) (reply r)]"
    using getOrCreateConversation_member(2)[OF g] c by simp
  show "messageId r = aiMessageId e" by (rule m)
qed

lemma set_replaceAll: "set (replaceAll c r s) \<subseteq> (set s - {c}) \<union> set r"
  by (auto simp: replaceAll_def split: if_splits)

lemma set_trim: "set (trim t) \<subseteq> set t"
proof -
  have "set (trim t) = set (dropWhile isWhiteSpace (rev (dropWhile isWhiteSpace t)))"
    by (simp add: trim_def)
  also have "\<dots> \<subseteq> set (rev (dropWhile isWhiteSpace t))"
    by (meson set_dropWhileD subsetI)
  also have "\<dots> \<subseteq> set t"
    using set_dropWhileD[of _ isWhiteSpace t] by auto
  finally show ?thesis .
qed

lemma set_trimmedMessage: "set (trimmedMessage t) \<subseteq> set t \<union> {CHR ''.''}"
  using set_take_subset[of 2000 t]
  by (auto simp: trimmedMessage_def substring0_def)

lemma sanitize_uncapped_clean:
  "CHR ''<'' \<notin> set (sanitize_uncapped t)" "CHR ''>'' \<notin> set (sanitize_uncapped t)"
proof -
  let ?x = "replaceAll CHR ''<'' ''&lt;'' t"
  have x: "CHR ''<'' \<notin> set ?x" using set_replaceAll[of "CHR ''<''" "''&lt;''" t] by auto
  have y: "set (sanitize_uncapped t) \<subseteq> (set ?x - {CHR ''>''}) \<union> set ''&gt;''"
    unfolding sanitize_uncapped_def by (rule set_replaceAll)
  from x y show "CHR ''<'' \<notin> set (sanitize_uncapped t)" by auto
  from y show "CHR ''>'' \<notin> set (sanitize_uncapped t)" by auto
qed

lemma sanitize_capped: "sanitize t = take 5000 (sanitize_uncapped t)"
  by (simp add: sanitize_def sanitize_uncapped_def substring0_def)

lemma sanitize_clean:
  "CHR ''<'' \<notin> set (sanitize t)" "CHR ''>'' \<notin> set (sanitize t)"
  using sanitize_uncapped_clean[of t] set_take_subset[of 5000 "sanitize_uncapped t"]
  by (auto simp: sanitize_capped)

text \<open>A text without angle brackets, trimmed or truncated, differs from one that has them.\<close>

lemma clean_text_differs:
  assumes "CHR ''<'' \<notin> set t" "CHR ''>'' \<notin> set t"
      and "CHR ''<'' \<in> set raw \<or> CHR ''>'' \<in> set raw"
  shows "trim t \<noteq> raw" "trimmedMessage (trim t) \<noteq> raw"
proof -
  have a: "CHR ''<'' \<notin> set (trim t) \<and> CHR ''>'' \<notin> set (trim t)"
    using assms(1,2) set_trim[of t] by auto
  then show "trim t \<noteq> raw" using assms(3) by auto
  have "CHR ''<'' \<notin> set (trimmedMessage (trim t)) \<and> CHR ''>'' \<notin> set (trimmedMessage (trim t))"
    using a set_trimmedMessage[of "trim t"] by auto
  then show "trimmedMessage (trim t) \<noteq> raw" using assms(3) by auto
qed

lemma sendMessage_200:
  assumes "sendMessage svc (Str m) sid e s = (\<lparr> statusCode = 200, body = Success r \<rparr>, s')"
  shows "processMessage svc \<lparr> req_message = trim m, req_sessionId = sid \<rparr> e s = (Inr r, s')"
proof -
  have ne: "m \<noteq> []" "length (trim m) \<noteq> 0"
    using assms by (auto simp: sendMessage_def split: if_splits)
  obtain a s1 where p: "processMessage svc \<lparr> req_message = trim m, req_sessionId = sid \<rparr> e s = (a, s1)"
    by (cases "processMessage svc \<lparr> req_message = trim m, req_sessionId = sid \<rparr> e s")
  show ?thesis
  proof (cases a)
    case (Inl err)
    with assms ne p show ?thesis by (simp add: sendMessage_def split: if_splits)
  next
    case (Inr result)
    with assms ne p show ?thesis by (simp add: sendMessage_def)
  qed
qed

lemma validateMessage_mw_Inr:
  "validateMessage_mw (Str raw) = Inr m \<Longrightarrow> m = sanitize (trim raw)"
  by (auto simp: validateMessage_mw_def split: if_splits)

lemma validateMessage_mw_uncapped_Inr:
  "validateMessage_mw_uncapped (Str raw) = Inr m \<Longrightarrow> m = sanitize_uncapped (trim raw)"
  by (auto simp: validateMessage_mw_uncapped_def split: if_splits)

lemma postMessage_200:
  assumes "postMessage svc (Str raw) sid e s = (\<lparr> statusCode = 200, body = Success r \<rparr>, s')"
  shows "validateMessage_mw (Str raw) = Inr (sanitize (trim raw))"
    and "processMessage svc \<lparr> req_message = trim (sanitize (trim raw)), req_sessionId = sid \<rparr> e s
           = (Inr r, s')"
proof -
  show v: "validateMessage_mw (Str raw) = Inr (sanitize (trim raw))"
  proof (cases "validateMessage_mw (Str raw)")
    case (Inl response)
    then have "statusCode response = 400"
      by (auto simp: validateMessage_mw_def split: if_splits)
    with Inl assms show ?thesis by (auto simp: postMessage_def)
  next
    case (Inr m)
    with validateMessage_mw_Inr[OF Inr] show ?thesis by simp
  qed
  with assms have "sendMessage svc (Str (sanitize (trim raw))) sid e s
      = (\<lparr> statusCode = 200, body = Success r \<rparr>, s')"
    by (simp add: postMessage_def)
  then show "processMessage svc \<lparr> req_message = trim (sanitize (trim raw)), req_sessionId = sid \<rparr> e s
           = (Inr r, s')"
    by (rule sendMessage_200)
qed

lemma postMessage_uncapped_200:
  assumes "postMessage_uncapped svc (Str raw) sid e s
             = (\<lparr> statusCode = 200, body = Success r \<rparr>, s')"
  shows "processMessage svc
           \<lparr> req_message = trim (sanitize_uncapped (trim raw)), req_sessionId = sid \<rparr> e s
           = (Inr r, s')"
proof -
  have v: "validateMessage_mw_uncapped (Str raw) = Inr (sanitize_uncapped (trim raw))"
  proof (cases "validateMessage_mw_uncapped (Str raw)")
    case (Inl response)
    then have "statusCode response = 400"
      by (auto simp: validateMessage_mw_uncapped_def split: if_splits)
    with Inl assms show ?thesis by (auto simp: postMessage_uncapped_def)
  next
    case (Inr m)
    with validateMessage_mw_uncapped_Inr[OF Inr] show ?thesis by simp
  qed
  with assms have "sendMessage svc (Str (sanitize_uncapped (trim raw))) sid e s
      = (\<lparr> statusCode = 200, body = Success r \<rparr>, s')"
    by (simp add: postMessage_uncapped_def)
  then show ?thesis by (rule sendMessage_200)
qed

text \<open>The same for the copy of the middleware without the cap.\<close>

lemma postMessage_uncapped_stores_sanitized_text:
  assumes "postMessage_uncapped svc (Str raw) sid e s
             = (\<lparr> statusCode = 200, body = Success r \<rparr>, s')"
      and "CHR ''<'' \<in> set raw \<or> CHR ''>'' \<in> set raw"
  shows "\<exists>u a. messages s' = messages s @ [u, a] \<and> m_sender u = USER
          \<and> m_text u = trim (sanitize_uncapped (trim raw)) \<and> m_text u \<noteq> raw
          \<and> trimmedMessage (m_text u) \<noteq> raw"
  using processMessage_messages(1)[OF postMessage_uncapped_200[OF assms(1)]]
    clean_text_differs[OF sanitize_uncapped_clean assms(2), of "trim raw"]
  by simp

lemma trim_rawTag: "trim rawTag = rawTag"
  by (simp add: trim_def rawTag_def isWhiteSpace_def)

lemma sanitize_rawTag: "sanitize rawTag = ''&lt;b&gt;hi&lt;/b&gt;''"
  by (simp add: sanitize_def replaceAll_def substring0_def rawTag_def)

lemma trim_sanitized_rawTag: "trim ''&lt;b&gt;hi&lt;/b&gt;'' = ''&lt;b&gt;hi&lt;/b&gt;''"
  by (simp add: trim_def isWhiteSpace_def)

lemma eval_postMessage_rawTag:
  "postMessage svc0 (Str rawTag) None env0 store0
     = (\<lparr> statusCode = 200, body = Success respTag \<rparr>, storeTag)"
proof -
  let ?t = "''&lt;b&gt;hi&lt;/b&gt;''"
  let ?req = "\<lparr> req_message = ?t, req_sessionId = None \<rparr>"
  have mw: "validateMessage_mw (Str rawTag) = Inr ?t"
  proof -
    have "rawTag \<noteq> []" "length rawTag = 9" by (simp_all add: rawTag_def)
    then show ?thesis
      by (simp add: validateMessage_mw_def trim_rawTag sanitize_rawTag)
  qed
  have v: "validateMessage (req_message ?req) = Inr ()"
    by (simp add: validateMessage_def trim_sanitized_rawTag)
  have g: "getOrCreateConversation (req_sessionId ?req) env0 store0
       = (Inr (newRow None env0), \<lparr> conversations = [newRow None env0], messages = [] \<rparr>)"
    by (simp add: getOrCreateConversation_def createConversation_def conversation_create_def
          store0_def)
  have t: "''ok'' = content (replyOrFallback svc0 env0 (req_message ?req) h)" for h
    by (simp add: replyOrFallback_def generateReply_def generateReplyBody_def
          generateWithGemini_def svc0_def env0_def trim_sanitized_rawTag)
  have ids: "userMessageId env0 = ''m1''" "aiMessageId env0 = ''m2''"
    "newConversationId env0 = ''c1''" "updateNow env0 = 3" "userMessageNow env0 = 1"
    "aiMessageNow env0 = 2"
    by (simp_all add: env0_def)
  have f: "userMessageId env0 \<notin> set (map m_id (messages store0))"
    "aiMessageId env0 \<notin> set (map m_id (messages store0))"
    "aiMessageId env0 \<noteq> userMessageId env0"
    by (simp_all add: ids store0_def)
  have p: "processMessage svc0 ?req env0 store0 = (Inr respTag, storeTag)"
    using processMessage_success[OF v g f t]
    by (simp add: ids store0_def newSessionId_def respTag_def storeTag_def)
  show ?thesis
    unfolding postMessage_def mw
    by (simp add: sendMessage_def trim_sanitized_rawTag p)
qed

section \<open>Session resolution\<close>

text \<open>
  Claim C1, as the code has it. After a successful \<open>processMessage\<close>: a non-empty
  \<open>sessionId\<close> that matches a conversation reuses that conversation and creates none;
  a non-empty \<open>sessionId\<close> that matches no conversation creates one new conversation
  whose session id is the caller's own; an absent or empty \<open>sessionId\<close> creates one
  new conversation whose session id is minted from the clock and the random suffix; and
  a second successful call that supplies the returned session id returns the same
  conversation id and creates no conversation.
\<close>

theorem processMessage_session_resolution:
  assumes ok: "processMessage svc request e s = (Inr r, s')"
  shows
   "(\<forall>x c. req_sessionId request = Some x \<and> x \<noteq> [] \<and> conversation_findUnique x s = Some c \<longrightarrow>
        conversationId r = c_id c \<and> sessionId r = x
        \<and> length (conversations s') = length (conversations s))
  \<and> (\<forall>x. req_sessionId request = Some x \<and> x \<noteq> [] \<and> conversation_findUnique x s = None \<longrightarrow>
        sessionId r = x \<and> conversationId r = newConversationId e
        \<and> conversations s' =
             conversations s @ [(newRow (Some x) e)\<lparr>c_updatedAt := updateNow e\<rparr>]
        \<and> c_sessionId (newRow (Some x) e) = x)
  \<and> (req_sessionId request = None \<or> req_sessionId request = Some [] \<longrightarrow>
        sessionId r = mintSessionId e \<and> conversationId r = newConversationId e
        \<and> conversations s' =
             conversations s @ [(newRow (req_sessionId request) e)\<lparr>c_updatedAt := updateNow e\<rparr>]
        \<and> c_sessionId (newRow (req_sessionId request) e) = mintSessionId e)
  \<and> (\<forall>request2 e2 r2 s2.
        req_sessionId request2 = Some (sessionId r)
        \<and> processMessage svc request2 e2 s' = (Inr r2, s2) \<longrightarrow>
        conversationId r2 = conversationId r \<and> sessionId r2 = sessionId r
        \<and> length (conversations s2) = length (conversations s'))"
proof (intro conjI allI impI)
  fix x c
  assume a: "req_sessionId request = Some x \<and> x \<noteq> [] \<and> conversation_findUnique x s = Some c"
  then have g: "getOrCreateConversation (req_sessionId request) e s = (Inr c, s)"
    by (simp add: getOrCreateConversation_found)
  note p = processMessage_conversations[OF ok g]
  from find_Some_sessionId[of x s c] a have "c_sessionId c = x" by simp
  show "conversationId r = c_id c" by (rule p(2))
  show "sessionId r = x" using p(1) \<open>c_sessionId c = x\<close> by simp
  show "length (conversations s') = length (conversations s)" unfolding p(3) by simp
next
  fix x
  assume a: "req_sessionId request = Some x \<and> x \<noteq> [] \<and> conversation_findUnique x s = None"
  then have g: "getOrCreateConversation (req_sessionId request) e s
                  = createConversation (req_sessionId request) e s"
    by (simp add: getOrCreateConversation_missing)
  from a have n: "newSessionId (req_sessionId request) e = x" by (simp add: newSessionId_def)
  note p = processMessage_created[OF ok g]
  show "sessionId r = x" using p n by simp
  show "conversationId r = newConversationId e" using p by simp
  show "conversations s' = conversations s @ [(newRow (Some x) e)\<lparr>c_updatedAt := updateNow e\<rparr>]"
    using p a by simp
  show "c_sessionId (newRow (Some x) e) = x" using a by (simp add: newSessionId_def)
next
  assume a: "req_sessionId request = None \<or> req_sessionId request = Some []"
  then have g: "getOrCreateConversation (req_sessionId request) e s
                  = createConversation (req_sessionId request) e s"
    by (rule getOrCreateConversation_falsy)
  from a have n: "newSessionId (req_sessionId request) e = mintSessionId e"
    by (auto simp: newSessionId_def)
  note p = processMessage_created[OF ok g]
  show "sessionId r = mintSessionId e" using p n by simp
  show "conversationId r = newConversationId e" using p by simp
  show "conversations s' =
          conversations s @ [(newRow (req_sessionId request) e)\<lparr>c_updatedAt := updateNow e\<rparr>]"
    using p by simp
  show "c_sessionId (newRow (req_sessionId request) e) = mintSessionId e" using n by simp
next
  fix request2 e2 r2 s2
  assume a: "req_sessionId request2 = Some (sessionId r)
             \<and> processMessage svc request2 e2 s' = (Inr r2, s2)"
  from processMessage_findUnique_after[OF ok] obtain c where
    ne: "sessionId r \<noteq> []" and f: "conversation_findUnique (sessionId r) s' = Some c"
    and c: "c_id c = conversationId r" by blast
  from a ne f have g: "getOrCreateConversation (req_sessionId request2) e2 s' = (Inr c, s')"
    by (simp add: getOrCreateConversation_found)
  from a have ok2: "processMessage svc request2 e2 s' = (Inr r2, s2)" by simp
  note p = processMessage_conversations[OF ok2 g]
  from find_Some_sessionId[OF f] have cs: "c_sessionId c = sessionId r" by simp
  show "conversationId r2 = conversationId r" using p(2) c by simp
  show "sessionId r2 = sessionId r" using p(1) cs by simp
  show "length (conversations s2) = length (conversations s')" unfolding p(3) by simp
qed

theorem processMessage_session_resolution_witness:
  "processMessage svc0 reqAbc env0 store0 = (Inr respAbc, storeAbc)
   \<and> conversation_findUnique ''abc'' store0 = None
   \<and> sessionId respAbc = ''abc''
   \<and> conversations storeAbc = conversations store0 @ [(newRow (Some ''abc'') env0)\<lparr>c_updatedAt := updateNow env0\<rparr>]
   \<and> req_sessionId reqAbc = Some (sessionId respAbc)
   \<and> fst (processMessage svc0 reqAbc env1 storeAbc)
       = Inr \<lparr> reply = ''ok'', sessionId = ''abc'', messageId = ''m4'', conversationId = ''c1'' \<rparr>
   \<and> conversationId \<lparr> reply = ''ok'', sessionId = ''abc'', messageId = ''m4'', conversationId = ''c1'' \<rparr>
       = conversationId respAbc
   \<and> length (conversations (snd (processMessage svc0 reqAbc env1 storeAbc)))
       = length (conversations storeAbc)"
proof -
  have a: "req_sessionId reqAbc = Some ''abc''" "conversation_findUnique ''abc'' store0 = None"
    "sessionId respAbc = ''abc''"
    by (simp_all add: reqAbc_def conversation_findUnique_def store0_def respAbc_def)
  note th = processMessage_session_resolution[OF eval_reqAbc']
  from th a have b: "conversations storeAbc =
      conversations store0 @ [(newRow (Some ''abc'') env0)\<lparr>c_updatedAt := updateNow env0\<rparr>]"
    by blast
  from th a eval_reqAbc_again
  have c: "conversationId \<lparr> reply = ''ok'', sessionId = ''abc'', messageId = ''m4'', conversationId = ''c1'' \<rparr>
       = conversationId respAbc"
    "length (conversations (snd (processMessage svc0 reqAbc env1 storeAbc)))
       = length (conversations storeAbc)"
    by (metis snd_conv)+
  show ?thesis using a b c eval_reqAbc' eval_reqAbc_again by simp
qed

text \<open>
  Claim C1 as stated fails: in the empty store the unknown session id \<open>abc\<close> becomes
  the session id of the new conversation, and it is not the minted identifier.
\<close>

theorem unknown_sessionId_kept_counterexample:
  "req_sessionId reqAbc = Some ''abc''
   \<and> conversation_findUnique ''abc'' store0 = None
   \<and> fst (processMessage svc0 reqAbc env0 store0) =
       Inr \<lparr> reply = ''ok'', sessionId = ''abc'', messageId = ''m2'', conversationId = ''c1'' \<rparr>
   \<and> map c_sessionId (conversations (snd (processMessage svc0 reqAbc env0 store0))) = [''abc'']
   \<and> mintSessionId env0 \<noteq> ''abc''"
  unfolding eval_reqAbc
  by (simp add: reqAbc_def conversation_findUnique_def store0_def mintSessionId_def)

section \<open>Validation\<close>

text \<open>
  Claim C4, as the code has it. \<open>processMessage\<close> fails with the error
  \<open>Message cannot be empty\<close> for every text that is empty after trimming, and with the
  different error \<open>Message is too long\<close> for every text of more than 5000 characters
  that is not blank; in both cases the store is returned unchanged.
\<close>

theorem processMessage_rejects_invalid_text:
  "(trim text = [] \<longrightarrow>
      processMessage svc \<lparr> req_message = text, req_sessionId = sid \<rparr> e s
        = (Inl (Error ''Message cannot be empty''), s))
   \<and> (trim text \<noteq> [] \<and> length text > 5000 \<longrightarrow>
      processMessage svc \<lparr> req_message = text, req_sessionId = sid \<rparr> e s
        = (Inl (Error ''Message is too long. Please limit to 5000 characters.''), s))
   \<and> Error ''Message cannot be empty''
        \<noteq> Error ''Message is too long. Please limit to 5000 characters.''"
  by (simp add: processMessage_def validateMessage_empty validateMessage_long)

theorem processMessage_rejects_invalid_text_witness:
  "trim (replicate 3 CHR '' '') = []
   \<and> processMessage svc0 \<lparr> req_message = replicate 3 CHR '' '', req_sessionId = None \<rparr> env0 store0
       = (Inl (Error ''Message cannot be empty''), store0)
   \<and> trim (replicate 5001 CHR ''a'') \<noteq> [] \<and> length (replicate 5001 CHR ''a'') > 5000
   \<and> processMessage svc0 \<lparr> req_message = replicate 5001 CHR ''a'', req_sessionId = None \<rparr> env0 store0
       = (Inl (Error ''Message is too long. Please limit to 5000 characters.''), store0)"
proof -
  have a: "trim (replicate 3 CHR '' '') = []"
    by (simp add: trim_replicate isWhiteSpace_def)
  have b: "trim (replicate 5001 CHR ''a'') \<noteq> [] \<and> length (replicate 5001 CHR ''a'') > 5000"
    by (simp add: trim_replicate isWhiteSpace_def)
  show ?thesis
    using a b
      processMessage_rejects_invalid_text[of "replicate 3 CHR '' ''" svc0 None env0 store0]
      processMessage_rejects_invalid_text[of "replicate 5001 CHR ''a''" svc0 None env0 store0]
    by blast
qed

text \<open>
  Claim C4 as stated fails for a blank text of 5001 characters: it is longer than 5000
  characters, and the error is the one for an empty message.
\<close>

theorem long_blank_text_counterexample:
  "length (replicate 5001 CHR '' '') > 5000
   \<and> processMessage svc0 \<lparr> req_message = replicate 5001 CHR '' '', req_sessionId = None \<rparr> env0 store0
       = (Inl (Error ''Message cannot be empty''), store0)
   \<and> Error ''Message cannot be empty''
        \<noteq> Error ''Message is too long. Please limit to 5000 characters.''"
  by (simp add: processMessage_def validateMessage_empty trim_replicate isWhiteSpace_def)

section \<open>The prompt\<close>

text \<open>
  Claim C6. For every history and every text, the prompt the service builds (the text
  truncated by \<open>generateReply\<close>, then \<open>buildPrompt\<close>) is the prompt of the
  specification: the knowledge block, the transcript of the last five entries labelled
  \<open>Customer\<close> or \<open>Support Agent\<close>, and the instruction line with the question cut to
  2000 characters plus an ellipsis when it was longer.
\<close>

theorem buildPrompt_refines_spec:
  "buildPrompt history (trimmedMessage text) = spec_prompt history text"
  by (simp add: buildPrompt_def spec_prompt_def spec_instruction_def
        conversationContext_spec trimmedMessage_spec)

section \<open>Provider errors\<close>

text \<open>
  Claim C7. Every error \<open>generateReply\<close> raises carries one of three pairwise different
  messages. A provider error whose message mentions an API key or authentication gets
  the first, one that mentions a rate limit or a quota gets the second, every other one
  the third; an empty response is raised as an error and gets the third.
\<close>

theorem generateReply_three_buckets:
  "(generateReply svc gen text history = Inl err \<longrightarrow>
      err = Error authMessage \<or> err = Error rateMessage \<or> err = Error otherMessage)
   \<and> (svc_provider svc = ''gemini'' \<and> geminiClient svc \<and> trim text \<noteq> []
        \<and> gen (buildPrompt history (trimmedMessage text)) = Throws m \<longrightarrow>
      generateReply svc gen text history =
        Inl (Error (if includes_str m ''API key'' \<or> includes_str m ''authentication''
                    then authMessage
                    else if includes_str m ''rate limit'' \<or> includes_str m ''quota''
                    then rateMessage
                    else otherMessage)))
   \<and> (svc_provider svc = ''gemini'' \<and> geminiClient svc \<and> trim text \<noteq> []
        \<and> (gen (buildPrompt history (trimmedMessage text)) = Response None
           \<or> gen (buildPrompt history (trimmedMessage text)) = Response (Some [])) \<longrightarrow>
      generateReply svc gen text history = Inl (Error otherMessage))
   \<and> authMessage \<noteq> rateMessage \<and> authMessage \<noteq> otherMessage \<and> rateMessage \<noteq> otherMessage"
proof (intro conjI impI)
  assume "generateReply svc gen text history = Inl err"
  then show "err = Error authMessage \<or> err = Error rateMessage \<or> err = Error otherMessage"
    by (rule generateReply_Inl)
next
  assume a: "svc_provider svc = ''gemini'' \<and> geminiClient svc \<and> trim text \<noteq> []
        \<and> gen (buildPrompt history (trimmedMessage text)) = Throws m"
  then have "generateReplyBody svc gen text history = Inl (Error m)"
    by (simp add: generateReplyBody_gemini)
  then show "generateReply svc gen text history =
        Inl (Error (if includes_str m ''API key'' \<or> includes_str m ''authentication''
                    then authMessage
                    else if includes_str m ''rate limit'' \<or> includes_str m ''quota''
                    then rateMessage
                    else otherMessage))"
    by (simp add: generateReply_def classify_def)
next
  assume a: "svc_provider svc = ''gemini'' \<and> geminiClient svc \<and> trim text \<noteq> []
        \<and> (gen (buildPrompt history (trimmedMessage text)) = Response None
           \<or> gen (buildPrompt history (trimmedMessage text)) = Response (Some []))"
  then have "generateReplyBody svc gen text history = Inl (Error ''Empty response from Gemini'')"
    by (auto simp: generateReplyBody_gemini)
  then show "generateReply svc gen text history = Inl (Error otherMessage)"
    by (simp add: generateReply_def classify_empty_response)
qed (rule message_distinct)+

theorem generateReply_three_buckets_witness:
  "generateReply svc0 providerQuota ''hi'' [] = Inl (Error rateMessage)
   \<and> generateReply svc0 providerEmpty ''hi'' [] = Inl (Error otherMessage)"
proof -
  have p: "svc_provider svc0 = ''gemini'' \<and> geminiClient svc0 \<and> trim ''hi'' \<noteq> []"
    by (simp add: svc0_def trim_def isWhiteSpace_def)
  have q: "providerQuota (buildPrompt [] (trimmedMessage ''hi'')) = Throws ''429: quota exceeded''"
    by (simp add: providerQuota_def)
  have e: "providerEmpty (buildPrompt [] (trimmedMessage ''hi'')) = Response (Some [])"
    by (simp add: providerEmpty_def)
  have k: "\<not> includes_str ''429: quota exceeded'' ''API key''"
    "\<not> includes_str ''429: quota exceeded'' ''authentication''"
    "includes_str ''429: quota exceeded'' ''quota''"
    by simp_all
  from generateReply_three_buckets[of svc0 providerQuota "''hi''" "[]" "Error rateMessage" "''429: quota exceeded''"]
    generateReply_three_buckets[of svc0 providerEmpty "''hi''" "[]" "Error otherMessage" "[]"]
    p q e k
  show ?thesis by simp
qed

section \<open>The history read back for the prompt\<close>

text \<open>
  Claim C2 at a conversation of eleven messages. The history \<open>processMessage\<close> reads
  back has ten entries in ascending \<open>createdAt\<close> order, and they are the ten oldest
  messages: the most recent one, created at time 11, is not among them.
\<close>

theorem history_is_oldest_ten:
  "map m_createdAt (messages store11) = [1, 2, 3, 4, 5, 6, 7, 8, 9, 10, 11]
   \<and> set (map m_conversationId (messages store11)) = {''c1''}
   \<and> map h_createdAt (getConversationHistory ''c1'' store11) = [1, 2, 3, 4, 5, 6, 7, 8, 9, 10]"
  by code_simp

section \<open>LLM failure\<close>

text \<open>
  Claim C3. Let the text be valid, let the conversation resolve, and let the store accept
  the ids of the two new messages. If the LLM client call fails, with whatever error,
  \<open>processMessage\<close> returns a result and not an error; its reply is the fixed
  fallback string; and the messages of the store grow by exactly two, the user's message
  followed by an AI message whose text is the fallback string.
\<close>

theorem processMessage_llm_failure_fallback:
  assumes v: "validateMessage (req_message request) = Inr ()"
      and g: "getOrCreateConversation (req_sessionId request) e s = (Inr conv, s1)"
      and fu: "userMessageId e \<notin> set (map m_id (messages s))"
      and fa: "aiMessageId e \<notin> set (map m_id (messages s))"
      and ne: "aiMessageId e \<noteq> userMessageId e"
      and llm: "generateReply svc (generateContent e) (req_message request)
                  (getConversationHistory (c_id conv)
                     (s1\<lparr>messages := messages s @ [userRow request e (c_id conv)]\<rparr>)) = Inl err"
  shows "processMessage svc request e s =
      (Inr \<lparr> reply = fallbackContent, sessionId = c_sessionId conv,
             messageId = aiMessageId e, conversationId = c_id conv \<rparr>,
       \<lparr> conversations = map (touch (c_id conv) (updateNow e)) (conversations s1),
         messages = messages s @ [userRow request e (c_id conv),
                                  aiRow e (c_id conv) fallbackContent] \<rparr>)"
proof -
  have t: "fallbackContent = content (replyOrFallback svc e (req_message request)
                    (getConversationHistory (c_id conv)
                       (s1\<lparr>messages := messages s @ [userRow request e (c_id conv)]\<rparr>)))"
    by (simp add: replyOrFallback_def llm fallbackResponse_def)
  show ?thesis by (rule processMessage_success[OF v g fu fa ne t])
qed

theorem processMessage_llm_failure_fallback_witness:
  "validateMessage (req_message req0) = Inr ()
   \<and> getOrCreateConversation (req_sessionId req0) envDown store0
       = (Inr (newRow None envDown), \<lparr> conversations = [newRow None envDown], messages = [] \<rparr>)
   \<and> generateReply svc0 (generateContent envDown) (req_message req0)
        (getConversationHistory ''c1''
           \<lparr> conversations = [newRow None envDown],
             messages = [userRow req0 envDown ''c1''] \<rparr>) = Inl (Error otherMessage)
   \<and> processMessage svc0 req0 envDown store0 =
      (Inr \<lparr> reply = fallbackContent, sessionId = mintSessionId envDown,
             messageId = ''m2'', conversationId = ''c1'' \<rparr>,
       \<lparr> conversations = [(newRow None envDown)\<lparr>c_updatedAt := 3\<rparr>],
         messages = [userRow req0 envDown ''c1'', aiRow envDown ''c1'' fallbackContent] \<rparr>)"
proof -
  have v: "validateMessage (req_message req0) = Inr ()"
    by (simp add: req0_def validateMessage_hi)
  have g: "getOrCreateConversation (req_sessionId req0) envDown store0
       = (Inr (newRow None envDown), \<lparr> conversations = [newRow None envDown], messages = [] \<rparr>)"
    by (simp add: getOrCreateConversation_def createConversation_def conversation_create_def
          req0_def store0_def)
  have l: "generateReply svc0 (generateContent envDown) (req_message req0) h = Inl (Error otherMessage)" for h
    by (simp add: req0_def generateReply_down)
  have ids: "userMessageId envDown = ''m1''" "aiMessageId envDown = ''m2''"
    "newConversationId envDown = ''c1''" "updateNow envDown = 3"
    by (simp_all add: envDown_def env0_def)
  have f: "userMessageId envDown \<notin> set (map m_id (messages store0))"
    "aiMessageId envDown \<notin> set (map m_id (messages store0))"
    "aiMessageId envDown \<noteq> userMessageId envDown"
    by (simp_all add: ids store0_def)
  from processMessage_llm_failure_fallback[OF v g f l]
  have "processMessage svc0 req0 envDown store0 =
      (Inr \<lparr> reply = fallbackContent, sessionId = mintSessionId envDown,
             messageId = ''m2'', conversationId = ''c1'' \<rparr>,
       \<lparr> conversations = [(newRow None envDown)\<lparr>c_updatedAt := 3\<rparr>],
         messages = [userRow req0 envDown ''c1'', aiRow envDown ''c1'' fallbackContent] \<rparr>)"
    by (simp add: ids store0_def newSessionId_def)
  with v g l show ?thesis by simp
qed

section \<open>The health check\<close>

text \<open>
  Claim C5 at a reachable store and an unreachable LLM provider. The health check
  answers 200 and reports the LLM as healthy: the reported status does not depend on the
  LLM backend.
\<close>

theorem health_ignores_llm:
  "llmBackend storeUp_llmDown p = Throws ''fetch failed''
   \<and> healthCheck storeUp_llmDown now =
       \<lparr> health_statusCode = 200, health_status = ''healthy'',
         health = \<lparr> database = ''healthy'', llm = ''healthy'', health_error = None,
                    timestamp = now \<rparr> \<rparr>"
  by (simp add: healthCheck_def getHealth_def storeUp_llmDown_def Let_def)

section \<open>Uniqueness of session ids\<close>

text \<open>
  Claim C8. In a store where every session id identifies at most one conversation, every
  operation of the service leaves a store with the same property; the conversations that
  existed keep their id and their session id, and at most one conversation is added;
  and \<open>getOrCreateConversation\<close> by itself preserves the property, so it never
  creates a second conversation for a session id that already has one.
\<close>

theorem session_unique_preserved:
  assumes "session_unique s"
  shows "session_unique (snd (perform svc op s))
       \<and> (\<exists>new. identities (snd (perform svc op s)) = identities s @ new \<and> length new \<le> 1)
       \<and> session_unique (snd (getOrCreateConversation sid e s))"
proof (intro conjI)
  show "session_unique (snd (perform svc op s))"
    using perform_identities[of svc op s] assms by (auto simp: session_unique_identities)
  show "\<exists>new. identities (snd (perform svc op s)) = identities s @ new \<and> length new \<le> 1"
    using perform_identities[of svc op s] by auto
  show "session_unique (snd (getOrCreateConversation sid e s))"
    using getOrCreateConversation_identities[of sid e s
      "fst (getOrCreateConversation sid e s)" "snd (getOrCreateConversation sid e s)"] assms
    by (auto simp: session_unique_identities)
qed

theorem session_unique_preserved_witness:
  "session_unique storeAbc
   \<and> session_unique (snd (perform svc0 (ProcessMessage reqAbc env1) storeAbc))
   \<and> session_unique (snd (getOrCreateConversation (Some ''abc'') env1 storeAbc))"
proof -
  have "session_unique storeAbc" by (simp add: session_unique_def storeAbc_def)
  with session_unique_preserved[of storeAbc svc0 "ProcessMessage reqAbc env1" "Some ''abc''" env1]
  show ?thesis by simp
qed

section \<open>The frame of a successful call\<close>

text \<open>
  Claim C9. A successful \<open>processMessage\<close> on a store whose conversation ids are
  unique changes the store in three ways only. At most one conversation is created.
  Exactly one conversation, the one the response names, gets a new \<open>updatedAt\<close>;
  every other field of every conversation is as before and no conversation is removed.
  Exactly two messages are appended, the user's and then the AI's, both owned by that
  conversation; the messages that existed are unchanged.
\<close>

theorem processMessage_frame:
  assumes inv: "id_unique s"
      and ok: "processMessage svc request e s = (Inr r, s')"
  shows "\<exists>created.
       (created = [] \<or> created = [newRow (req_sessionId request) e])
     \<and> conversations s' =
         map (touch (conversationId r) (updateNow e)) (conversations s @ created)
     \<and> length (filter (\<lambda>c. c_id c = conversationId r) (conversations s @ created)) = 1
     \<and> messages s' = messages s @ [userRow request e (conversationId r),
                                    aiRow e (conversationId r) (reply r)]
     \<and> messageId r = aiMessageId e"
proof -
  from processMessage_Inr[OF ok] obtain conv s1 where
    g: "getOrCreateConversation (req_sessionId request) e s = (Inr conv, s1)" by blast
  note p = processMessage_conversations[OF ok g]
  note m = processMessage_messages[OF ok]
  note mem = getOrCreateConversation_member(1)[OF g]
  consider (found) "s1 = s"
    | (created) "conv = newRow (req_sessionId request) e"
        "s1 = s\<lparr>conversations := conversations s @ [conv]\<rparr>"
        "c_id conv \<notin> set (map c_id (conversations s))"
    using getOrCreateConversation_Inr[OF g] by blast
  then show ?thesis
  proof cases
    case found
    have one: "length (filter (\<lambda>c. c_id c = conversationId r) (conversations s @ [])) = 1"
      using filter_id_unique[of "conversations s" "c_id conv"] inv mem found p(2)
      by (simp add: id_unique_def)
    show ?thesis
      apply (rule exI[of _ "[]"])
      using one m p(2,3) found by simp
  next
    case created
    have cs: "conversations s1 = conversations s @ [conv]" by (subst created(2)) simp
    have d: "distinct (map c_id (conversations s @ [conv]))"
      using inv created(3) by (simp add: id_unique_def)
    have one: "length (filter (\<lambda>c. c_id c = conversationId r) (conversations s @ [conv])) = 1"
      using filter_id_unique[OF d, of "c_id conv"] p(2) by simp
    show ?thesis
      apply (rule exI[of _ "[conv]"])
      using one m p(2) p(3)[unfolded cs] created(1) by simp
  qed
qed

theorem processMessage_frame_witness:
  "id_unique storeAbc
   \<and> processMessage svc0 reqAbc env1 storeAbc =
     (Inr \<lparr> reply = ''ok'', sessionId = ''abc'', messageId = ''m4'', conversationId = ''c1'' \<rparr>,
      \<lparr> conversations = [\<lparr> c_id = ''c1'', c_sessionId = ''abc'', c_createdAt = 0,
                           c_updatedAt = 6,
                           c_metadata = \<lparr> startedAt = 0, llmProvider = None \<rparr> \<rparr>],
        messages = messages storeAbc @
                   [\<lparr> m_id = ''m3'', m_conversationId = ''c1'', m_sender = USER,
                      m_text = ''hi'', m_createdAt = 4 \<rparr>,
                    \<lparr> m_id = ''m4'', m_conversationId = ''c1'', m_sender = AI,
                      m_text = ''ok'', m_createdAt = 5 \<rparr>] \<rparr>)
   \<and> (\<exists>created.
       (created = [] \<or> created = [newRow (req_sessionId reqAbc) env1])
     \<and> [\<lparr> c_id = ''c1'', c_sessionId = ''abc'', c_createdAt = 0, c_updatedAt = 6,
           c_metadata = \<lparr> startedAt = 0, llmProvider = None \<rparr> \<rparr>] =
         map (touch ''c1'' (updateNow env1)) (conversations storeAbc @ created))"
proof -
  have i: "id_unique storeAbc" by (simp add: id_unique_def storeAbc_def)
  from processMessage_frame[OF i eval_reqAbc_again] i eval_reqAbc_again
  show ?thesis by auto
qed

section \<open>What the HTTP interface stores\<close>

text \<open>
  Claim C10. When \<open>POST /chat/message\<close> succeeds, the middleware has replaced the
  text by its trimmed form with every \<open><\<close> replaced by \<open>&lt;\<close> and every
  \<open>>\<close> by \<open>&gt;\<close>, cut to 5000 characters; the stored user message is that text
  (trimmed once more by the controller) and contains no angle bracket; so for every
  client text that contains one, the stored user message and the text embedded in the
  prompt differ from what the client sent.
\<close>

theorem postMessage_stores_sanitized_text:
  assumes ok: "postMessage svc (Str raw) sid e s = (\<lparr> statusCode = 200, body = Success r \<rparr>, s')"
  shows "validateMessage_mw (Str raw) =
           Inr (substring0 5000
                  (replaceAll CHR ''>'' ''&gt;'' (replaceAll CHR ''<'' ''&lt;'' (trim raw))))
       \<and> messages s' = messages s @
           [\<lparr> m_id = userMessageId e, m_conversationId = conversationId r, m_sender = USER,
              m_text = trim (sanitize (trim raw)), m_createdAt = userMessageNow e \<rparr>,
            aiRow e (conversationId r) (reply r)]
       \<and> CHR ''<'' \<notin> set (trim (sanitize (trim raw)))
       \<and> CHR ''>'' \<notin> set (trim (sanitize (trim raw)))
       \<and> (CHR ''<'' \<in> set raw \<or> CHR ''>'' \<in> set raw \<longrightarrow>
            trim (sanitize (trim raw)) \<noteq> raw
            \<and> trimmedMessage (trim (sanitize (trim raw))) \<noteq> raw)"
proof (intro conjI impI)
  note p = postMessage_200[OF ok]
  show "validateMessage_mw (Str raw) =
           Inr (substring0 5000
                  (replaceAll CHR ''>'' ''&gt;'' (replaceAll CHR ''<'' ''&lt;'' (trim raw))))"
    using p(1) by (simp add: sanitize_def)
  show "messages s' = messages s @
           [\<lparr> m_id = userMessageId e, m_conversationId = conversationId r, m_sender = USER,
              m_text = trim (sanitize (trim raw)), m_createdAt = userMessageNow e \<rparr>,
            aiRow e (conversationId r) (reply r)]"
    using processMessage_messages(1)[OF p(2)] by simp
  show "CHR ''<'' \<notin> set (trim (sanitize (trim raw)))"
    using sanitize_clean(1)[of "trim raw"] set_trim[of "sanitize (trim raw)"] by auto
  show "CHR ''>'' \<notin> set (trim (sanitize (trim raw)))"
    using sanitize_clean(2)[of "trim raw"] set_trim[of "sanitize (trim raw)"] by auto
next
  assume a: "CHR ''<'' \<in> set raw \<or> CHR ''>'' \<in> set raw"
  show "trim (sanitize (trim raw)) \<noteq> raw"
    by (rule clean_text_differs(1)[OF sanitize_clean a])
  show "trimmedMessage (trim (sanitize (trim raw))) \<noteq> raw"
    by (rule clean_text_differs(2)[OF sanitize_clean a])
qed

theorem postMessage_stores_sanitized_text_witness:
  "postMessage svc0 (Str rawTag) None env0 store0
     = (\<lparr> statusCode = 200, body = Success respTag \<rparr>, storeTag)
   \<and> CHR ''<'' \<in> set rawTag
   \<and> map m_text (messages storeTag) = [trim (sanitize (trim rawTag)), ''ok'']
   \<and> trim (sanitize (trim rawTag)) = ''&lt;b&gt;hi&lt;/b&gt;''
   \<and> trim (sanitize (trim rawTag)) \<noteq> rawTag
   \<and> trimmedMessage (trim (sanitize (trim rawTag))) \<noteq> rawTag"
proof -
  have a: "CHR ''<'' \<in> set rawTag" by (simp add: rawTag_def)
  have b: "trim (sanitize (trim rawTag)) = ''&lt;b&gt;hi&lt;/b&gt;''"
    by (simp add: trim_rawTag sanitize_rawTag trim_sanitized_rawTag)
  have c: "messages store0 = []" "reply respTag = ''ok''"
    by (simp_all add: store0_def respTag_def)
  from postMessage_stores_sanitized_text[OF eval_postMessage_rawTag] a
  have "messages storeTag = messages store0 @
           [\<lparr> m_id = userMessageId env0, m_conversationId = conversationId respTag, m_sender = USER,
              m_text = trim (sanitize (trim rawTag)), m_createdAt = userMessageNow env0 \<rparr>,
            aiRow env0 (conversationId respTag) (reply respTag)]"
    and d: "trim (sanitize (trim rawTag)) \<noteq> rawTag"
      "trimmedMessage (trim (sanitize (trim rawTag))) \<noteq> rawTag"
    by blast+
  then have "map m_text (messages storeTag) = [trim (sanitize (trim rawTag)), ''ok'']"
    by (simp add: c)
  with a b d eval_postMessage_rawTag show ?thesis by simp
qed

end
